theory Spec2Isabelle
  imports Complex_Main "HOL-Library.Log_Nat"
begin

section \<open>Data model of the user and price documents\<close>

text \<open>
  The Cloud Functions of \<^verbatim>\<open>functions/index.js\<close> work on two kinds of Firestore documents:
  the price document \<^verbatim>\<open>energy_prices/NL\<close> and one document per user under \<^verbatim>\<open>users\<close>.
  A field that may be missing from a document (JavaScript \<^verbatim>\<open>undefined\<close>) is an option.
  Battery levels, thresholds and hours are integers. The prices that
  \<^verbatim>\<open>fetchEnergyPrices\<close> writes and \<^verbatim>\<open>calculateOptimalWindow\<close> averages are IEEE doubles
  (the type \<open>double\<close> below), with their rounding, their infinities and \<^verbatim>\<open>NaN\<close>;
  \<^verbatim>\<open>manageChargingLogic\<close> only compares the price of the current hour with 0, and there
  the price is an exact number.
\<close>

record charging_settings =
  chargingDuration :: "nat option"
  emergencyThreshold :: "int option"
  targetBattery :: "int option"
  optimalStartHour :: "int option"

record vehicle_state =
  vin :: string
  isCharging :: bool
  isPluggedIn :: bool
  batteryLevel :: int

record user_doc =
  settings :: "charging_settings option"
  vehicle :: "vehicle_state option"
  teslaRefreshToken :: "string option"
  chargeOverride :: "bool option"

type_synonym users = "(string \<times> user_doc) list"

section \<open>JavaScript numbers\<close>

text \<open>
  A JavaScript number is an IEEE 754 double: a finite value, one of the two infinities, or
  \<^verbatim>\<open>NaN\<close>. A finite double is given by the rational number it stands for; the two zeros are
  not told apart, since sums, quotients by a positive number and comparisons do not tell
  them apart either.
\<close>

datatype double = Finite rat | PosInf | NegInf | NaN

text \<open>
  The exponent of a positive rational \<open>x\<close>: the integer \<open>e\<close> with \<open>2^e \<le> x < 2^(e+1)\<close>
  (lemma \<open>exponentOf_bounds\<close> below). It is found from the bit lengths of numerator and
  denominator, which are off by at most one.
\<close>

definition exponentOf :: "rat \<Rightarrow> int" where
  "exponentOf x =
     (case quotient_of x of (p, q) \<Rightarrow>
        if 2 powi (bitlen p - bitlen q) \<le> x then bitlen p - bitlen q
        else bitlen p - bitlen q - 1)"

text \<open>Rounding to the nearest integer, a tie going to the even one.\<close>

definition roundHalfEven :: "rat \<Rightarrow> int" where
  "roundHalfEven x =
     (if x - of_int \<lfloor>x\<rfloor> < 1 / 2 then \<lfloor>x\<rfloor>
      else if 1 / 2 < x - of_int \<lfloor>x\<rfloor> then \<lfloor>x\<rfloor> + 1
      else if even \<lfloor>x\<rfloor> then \<lfloor>x\<rfloor> else \<lfloor>x\<rfloor> + 1)"

text \<open>
  The double nearest to an exact result, as every arithmetic operation of IEEE 754
  delivers it (round to nearest, ties to even). Doubles with exponent \<open>e\<close> are the multiples
  of \<open>2^(e - 52)\<close>; below \<open>2^(-1022)\<close> (subnormal numbers) the spacing stays
  \<open>2^(-1074)\<close>; a result that rounds to \<open>2^1024\<close> or more is an infinity.
\<close>

definition roundDouble :: "rat \<Rightarrow> double" where
  "roundDouble x =
     (if x = 0 then Finite 0
      else
        (let ulp = 2 powi (max (exponentOf \<bar>x\<bar>) (- 1022) - 52);
             r = of_int (roundHalfEven (\<bar>x\<bar> / ulp)) * ulp
         in if 2 powi 1024 \<le> r then (if 0 < x then PosInf else NegInf)
            else Finite (if 0 < x then r else - r)))"

text \<open>\<^verbatim>\<open>a + b\<close> on numbers.\<close>

fun plusDouble :: "double \<Rightarrow> double \<Rightarrow> double" where
  "plusDouble (Finite x) (Finite y) = roundDouble (x + y)"
| "plusDouble NaN b = NaN"
| "plusDouble a NaN = NaN"
| "plusDouble PosInf NegInf = NaN"
| "plusDouble NegInf PosInf = NaN"
| "plusDouble PosInf b = PosInf"
| "plusDouble NegInf b = NegInf"
| "plusDouble a PosInf = PosInf"
| "plusDouble a NegInf = NegInf"

text \<open>\<^verbatim>\<open>a * n\<close> for a number \<open>a\<close> and a natural number \<open>n\<close>.\<close>

fun timesDouble :: "double \<Rightarrow> nat \<Rightarrow> double" where
  "timesDouble NaN n = NaN"
| "timesDouble PosInf n = (if n = 0 then NaN else PosInf)"
| "timesDouble NegInf n = (if n = 0 then NaN else NegInf)"
| "timesDouble (Finite x) n = roundDouble (x * of_nat n)"

text \<open>\<^verbatim>\<open>a / n\<close> for a number \<open>a\<close> and a natural number \<open>n\<close>.\<close>

fun divideDouble :: "double \<Rightarrow> nat \<Rightarrow> double" where
  "divideDouble NaN n = NaN"
| "divideDouble PosInf n = PosInf"
| "divideDouble NegInf n = NegInf"
| "divideDouble (Finite x) n =
     (if n = 0 then (if x = 0 then NaN else if 0 < x then PosInf else NegInf)
      else roundDouble (x / of_nat n))"

text \<open>\<^verbatim>\<open>a < b\<close> on numbers: false whenever one of them is \<^verbatim>\<open>NaN\<close>.\<close>

fun lessDouble :: "double \<Rightarrow> double \<Rightarrow> bool" where
  "lessDouble (Finite x) (Finite y) = (x < y)"
| "lessDouble NaN b = False"
| "lessDouble a NaN = False"
| "lessDouble a NegInf = False"
| "lessDouble PosInf b = False"
| "lessDouble NegInf b = True"
| "lessDouble a PosInf = True"

section \<open>Function B: calculateOptimalWindow\<close>

text \<open>
  \<^verbatim>\<open>prices.slice(startHour, startHour + hoursNeeded)\<close> clamps at the end of the array, as
  \<open>take\<close> after \<open>drop\<close> does; \<^verbatim>\<open>reduce((a, b) => a + b, 0)\<close> adds the prices of the window
  from left to right, starting from 0 and rounding after each addition; the sum is then
  divided by \<^verbatim>\<open>hoursNeeded\<close>. A price that is missing from an entry adds as \<^verbatim>\<open>NaN\<close>.
\<close>

definition averagePrice :: "double list \<Rightarrow> nat \<Rightarrow> nat \<Rightarrow> double" where
  "averagePrice prices startHour hoursNeeded =
     divideDouble (foldl plusDouble (Finite 0) (take hoursNeeded (drop startHour prices)))
       hoursNeeded"

text \<open>
  The \<^verbatim>\<open>for\<close> loop over \<^verbatim>\<open>startHour\<close>, with the pair
  \<^verbatim>\<open>(bestStartHour, lowestAveragePrice)\<close> as its state. The loop condition
  \<^verbatim>\<open>startHour <= prices.length - hoursNeeded\<close> is a comparison of integers: the right-hand
  side is negative when the duration exceeds the number of prices.
\<close>

function windowLoop ::
  "double list \<Rightarrow> nat \<Rightarrow> nat \<Rightarrow> int \<times> double \<Rightarrow> int \<times> double" where
  "windowLoop prices hoursNeeded startHour (bestStartHour, lowestAveragePrice) =
     (if int startHour \<le> int (length prices) - int hoursNeeded then
        (if lessDouble (averagePrice prices startHour hoursNeeded) lowestAveragePrice
         then windowLoop prices hoursNeeded (Suc startHour)
                (int startHour, averagePrice prices startHour hoursNeeded)
         else windowLoop prices hoursNeeded (Suc startHour)
                (bestStartHour, lowestAveragePrice))
      else (bestStartHour, lowestAveragePrice))"
  by pat_completeness auto
termination
  by (relation "measure (\<lambda>(prices, hoursNeeded, startHour, st). Suc (length prices) - startHour)")
    auto

declare windowLoop.simps [simp del]

text \<open>
  The value of \<^verbatim>\<open>bestStartHour\<close> after the loop, which starts from \<open>-1\<close> and
  \<^verbatim>\<open>Infinity\<close>; \<open>-1\<close> says that no window was found.
\<close>

definition bestStartHourOf :: "double list \<Rightarrow> nat \<Rightarrow> int" where
  "bestStartHourOf prices hoursNeeded = fst (windowLoop prices hoursNeeded 0 (- 1, PosInf))"

text \<open>
  The body of \<^verbatim>\<open>usersSnapshot.forEach\<close>: the update queued in the batch for one user, if
  any. A user without settings, or whose \<^verbatim>\<open>chargingDuration\<close> is missing or 0 (both are
  falsy), is skipped with a warning.
\<close>

definition windowUpdate :: "double list \<Rightarrow> user_doc \<Rightarrow> int option" where
  "windowUpdate prices userData =
     (case settings userData of
        None \<Rightarrow> None
      | Some userSettings \<Rightarrow>
          (case chargingDuration userSettings of
             None \<Rightarrow> None
           | Some hoursNeeded \<Rightarrow>
               if hoursNeeded = 0 then None
               else if bestStartHourOf prices hoursNeeded \<noteq> - 1
                    then Some (bestStartHourOf prices hoursNeeded)
                    else None))"

text \<open>
  \<^verbatim>\<open>batch.update(userRef, {'settings.optimalStartHour': bestStartHour})\<close> sets that one
  nested field and keeps the rest of the document.
\<close>

definition setOptimalStartHour :: "int \<Rightarrow> user_doc \<Rightarrow> user_doc" where
  "setOptimalStartHour h userData =
     userData\<lparr>settings :=
       map_option (\<lambda>s. s\<lparr>optimalStartHour := Some h\<rparr>) (settings userData)\<rparr>"

definition applyWindowUpdate :: "double list \<Rightarrow> user_doc \<Rightarrow> user_doc" where
  "applyWindowUpdate prices userData =
     (case windowUpdate prices userData of
        None \<Rightarrow> userData
      | Some h \<Rightarrow> setOptimalStartHour h userData)"

text \<open>
  The whole function. Its first argument is \<^verbatim>\<open>Object.values(hourlyRates).map(rate => rate.price)\<close>,
  the prices in the order of their hours, or \<open>None\<close> when the price document has no
  \<^verbatim>\<open>hourlyRates\<close>. The result is the users collection after \<^verbatim>\<open>batch.commit()\<close>.
\<close>

definition calculateOptimalWindow :: "double list option \<Rightarrow> users \<Rightarrow> users" where
  "calculateOptimalWindow hourlyPrices usersSnapshot =
     (case hourlyPrices of
        None \<Rightarrow> usersSnapshot
      | Some prices \<Rightarrow> map (\<lambda>(userId, userData). (userId, applyWindowUpdate prices userData))
                        usersSnapshot)"

text \<open>
  The state of the loop after \<open>i\<close> iterations, as used in the correctness proof: either no
  window so far had an average below \<^verbatim>\<open>Infinity\<close> and the state is the initial one, or
  \<open>bestStartHour\<close> is a start hour below \<open>i\<close> whose average is the running minimum, no
  window so far has a lower average, and every earlier window has a greater average or
  none below \<^verbatim>\<open>Infinity\<close>.
\<close>

definition windowInv :: "double list \<Rightarrow> nat \<Rightarrow> nat \<Rightarrow> int \<times> double \<Rightarrow> bool" where
  "windowInv prices d i st =
     (case st of (b, lo) \<Rightarrow>
        (b = - 1 \<and> lo = PosInf \<and> (\<forall>j<i. \<not> lessDouble (averagePrice prices j d) PosInf)) \<or>
        (0 \<le> b \<and> nat b < i \<and> lo = averagePrice prices (nat b) d \<and> lessDouble lo PosInf \<and>
         (\<forall>j<i. \<not> lessDouble (averagePrice prices j d) lo) \<and>
         (\<forall>j<nat b. lessDouble lo (averagePrice prices j d) \<or>
                     \<not> lessDouble (averagePrice prices j d) PosInf)))"

text \<open>
  The arithmetic mean of the specification, in its own words: the exact sum of the \<open>d\<close>
  prices from \<open>s\<close>, divided by \<open>d\<close>, for prices that are finite.
\<close>

definition exactValue :: "double \<Rightarrow> rat" where
  "exactValue x = (case x of Finite r \<Rightarrow> r | _ \<Rightarrow> 0)"

definition spec_mean :: "double list \<Rightarrow> nat \<Rightarrow> nat \<Rightarrow> rat" where
  "spec_mean prices s d = sum_list (map exactValue (take d (drop s prices))) / of_nat d"

section \<open>Function C: telemetryWebhook\<close>

text \<open>
  The body of the request is \<^verbatim>\<open>{ vin, data }\<close>; of \<^verbatim>\<open>data\<close> the function reads the three
  fields below. A field is \<open>None\<close> when the payload does not have it.
\<close>

record telemetry_data =
  charging_state :: "string option"
  charge_port_latch :: "string option"
  battery_level :: "int option"

record telemetry_request =
  body_vin :: "string option"
  body_data :: "telemetry_data option"

text \<open>
  JavaScript truthiness, which decides every \<^verbatim>\<open>if (data.x)\<close>: \<^verbatim>\<open>undefined\<close>, the empty
  string and the number 0 are falsy.
\<close>

fun truthyString :: "string option \<Rightarrow> bool" where
  "truthyString None = False"
| "truthyString (Some s) = (s \<noteq> [])"

fun truthyNumber :: "int option \<Rightarrow> bool" where
  "truthyNumber None = False"
| "truthyNumber (Some n) = (n \<noteq> 0)"

text \<open>
  The object \<^verbatim>\<open>vehicleUpdate\<close>: each of its three possible keys is present (\<open>Some\<close>) or
  not.
\<close>

record vehicle_update =
  upd_isCharging :: "bool option"
  upd_isPluggedIn :: "bool option"
  upd_batteryLevel :: "int option"

definition vehicleUpdateOf :: "telemetry_data \<Rightarrow> vehicle_update" where
  "vehicleUpdateOf data =
     \<lparr>upd_isCharging =
        (if truthyString (charging_state data)
         then Some (charging_state data = Some ''Charging'') else None),
      upd_isPluggedIn =
        (if truthyString (charge_port_latch data)
         then Some (charge_port_latch data = Some ''Engaged'') else None),
      upd_batteryLevel =
        (if truthyNumber (battery_level data) then battery_level data else None)\<rparr>"

text \<open>\<^verbatim>\<open>Object.keys(vehicleUpdate).length > 0\<close>\<close>

definition hasKeys :: "vehicle_update \<Rightarrow> bool" where
  "hasKeys u = (upd_isCharging u \<noteq> None \<or> upd_isPluggedIn u \<noteq> None \<or> upd_batteryLevel u \<noteq> None)"

text \<open>
  Firestore's \<^verbatim>\<open>update\<close> with the field paths \<^verbatim>\<open>vehicle.isCharging\<close>,
  \<^verbatim>\<open>vehicle.isPluggedIn\<close> and \<^verbatim>\<open>vehicle.batteryLevel\<close>: the fields named in the update are
  replaced inside the \<^verbatim>\<open>vehicle\<close> map. The document updated here was found by its
  \<^verbatim>\<open>vehicle.vin\<close>, so it has a vehicle.
\<close>

definition updateVehicle :: "vehicle_update \<Rightarrow> user_doc \<Rightarrow> user_doc" where
  "updateVehicle u userData =
     userData\<lparr>vehicle :=
       map_option
         (\<lambda>v. v\<lparr>isCharging := (case upd_isCharging u of None \<Rightarrow> isCharging v | Some c \<Rightarrow> c),
                isPluggedIn := (case upd_isPluggedIn u of None \<Rightarrow> isPluggedIn v | Some p \<Rightarrow> p),
                batteryLevel := (case upd_batteryLevel u of None \<Rightarrow> batteryLevel v | Some b \<Rightarrow> b)\<rparr>)
         (vehicle userData)\<rparr>"

text \<open>\<^verbatim>\<open>usersRef.where('vehicle.vin', '==', vin).limit(1)\<close>: the first user with that VIN.\<close>

fun findByVin :: "string \<Rightarrow> users \<Rightarrow> (string \<times> user_doc) option" where
  "findByVin v [] = None"
| "findByVin v ((userId, userData) # rest) =
     (if map_option vin (vehicle userData) = Some v then Some (userId, userData)
      else findByVin v rest)"

text \<open>\<^verbatim>\<open>db.collection('users').doc(userId).update(...)\<close>\<close>

definition updateDoc :: "string \<Rightarrow> (user_doc \<Rightarrow> user_doc) \<Rightarrow> users \<Rightarrow> users" where
  "updateDoc userId f db =
     map (\<lambda>(i, userData). if i = userId then (i, f userData) else (i, userData)) db"

text \<open>
  The webhook: the HTTP status it answers with and the users collection afterwards.
  Firestore itself is taken not to fail, so the status 500 of the \<^verbatim>\<open>catch\<close> block does not
  occur.
\<close>

definition telemetryWebhook :: "users \<Rightarrow> telemetry_request \<Rightarrow> nat \<times> users" where
  "telemetryWebhook db req =
     (case body_vin req of
        None \<Rightarrow> (400, db)
      | Some v \<Rightarrow>
          if v = [] then (400, db)
          else
            (case body_data req of
               None \<Rightarrow> (400, db)
             | Some data \<Rightarrow>
                 (case findByVin v db of
                    None \<Rightarrow> (200, db)
                  | Some (userId, userData) \<Rightarrow>
                      if hasKeys (vehicleUpdateOf data)
                      then (200, updateDoc userId (updateVehicle (vehicleUpdateOf data)) db)
                      else (200, db))))"

section \<open>Function D: manageChargingLogic\<close>

datatype command = START | STOP

datatype reason = EmergencyCharging | BonusCharging | OptimalWindow | OutsideOptimalWindow

text \<open>
  What a run of the function does, in order: its log lines and the end of a run by an
  exception that nothing catches.
\<close>

datatype event =
    ManualOverrideDetected
  | OverrideSuccessful
  | OverrideError
  | CarPluggedIn
  | Decision command reason
  | LogicError
  | SendingCommand string string
  | FailedToSend string
  | UncaughtTypeError

record outcome =
  trace :: "event list"
  stored :: user_doc

text \<open>One entry of \<^verbatim>\<open>hourlyRates\<close> in the price document, and the object keyed by hour.\<close>

record rate =
  price :: rat
  time :: int

type_synonym hourly_rates = "int \<rightharpoonup> rate"

text \<open>
  \<^verbatim>\<open>sendTeslaChargeCommand\<close> catches whatever \<^verbatim>\<open>getTeslaAccessToken\<close> throws, so it never
  throws itself. The token exchange is a parameter: \<open>None\<close> when the request to the
  authorization server fails. The command itself is a placeholder in the source: only the
  log line is written.
\<close>

definition sendTeslaChargeCommand ::
  "(string option \<Rightarrow> string option) \<Rightarrow> string option \<Rightarrow> string \<Rightarrow> command \<Rightarrow> event list" where
  "sendTeslaChargeCommand getTeslaAccessToken refreshToken v cmd =
     (case getTeslaAccessToken refreshToken of
        Some accessToken \<Rightarrow>
          [SendingCommand (if cmd = START then ''charge_start'' else ''charge_stop'') v]
      | None \<Rightarrow> [FailedToSend v])"

text \<open>
  Comparison and addition of numbers that may be \<^verbatim>\<open>undefined\<close>: \<^verbatim>\<open>undefined\<close> becomes
  \<^verbatim>\<open>NaN\<close>, every comparison with it is false and every sum with it is \<^verbatim>\<open>NaN\<close> again.
\<close>

fun numLess :: "int option \<Rightarrow> int option \<Rightarrow> bool" where
  "numLess (Some a) (Some b) = (a < b)"
| "numLess _ _ = False"

fun numGreaterEq :: "int option \<Rightarrow> int option \<Rightarrow> bool" where
  "numGreaterEq (Some a) (Some b) = (a \<ge> b)"
| "numGreaterEq _ _ = False"

fun numPlus :: "int option \<Rightarrow> int option \<Rightarrow> int option" where
  "numPlus (Some a) (Some b) = Some (a + b)"
| "numPlus _ _ = None"

text \<open>The block under \<^verbatim>\<open>// --- Decision Logic ---\<close>.\<close>

definition decisionLogic :: "int \<Rightarrow> charging_settings \<Rightarrow> rat \<Rightarrow> int \<Rightarrow> command \<times> reason" where
  "decisionLogic batteryLvl userSettings currentPrice currentHour =
     (if numLess (Some batteryLvl) (emergencyThreshold userSettings)
      then (START, EmergencyCharging)
      else if currentPrice < 0
      then (START, BonusCharging)
      else if numGreaterEq (Some currentHour) (optimalStartHour userSettings) \<and>
              numLess (Some currentHour)
                (numPlus (optimalStartHour userSettings)
                   (map_option int (chargingDuration userSettings))) \<and>
              numLess (Some batteryLvl) (targetBattery userSettings)
      then (START, OptimalWindow)
      else (STOP, OutsideOptimalWindow))"

text \<open>
  \<^verbatim>\<open>afterData.chargeOverride === true && beforeData.chargeOverride !== true\<close>: the flag was
  just set.
\<close>

definition overrideRequested :: "user_doc \<Rightarrow> user_doc \<Rightarrow> bool" where
  "overrideRequested beforeData afterData =
     (chargeOverride afterData = Some True \<and> chargeOverride beforeData \<noteq> Some True)"

text \<open>
  The branch for a car that was just plugged in. Reading the fields of missing settings
  throws outside the \<^verbatim>\<open>try\<close>; a missing price document, or no entry for the current hour,
  throws inside it and is logged.
\<close>

definition pluggedInLogic ::
  "(string option \<Rightarrow> string option) \<Rightarrow> hourly_rates option \<Rightarrow> int \<Rightarrow> user_doc \<Rightarrow>
   vehicle_state \<Rightarrow> event list" where
  "pluggedInLogic getTeslaAccessToken priceDoc currentHour afterData v =
     (case settings afterData of
        None \<Rightarrow> [CarPluggedIn, UncaughtTypeError]
      | Some userSettings \<Rightarrow>
          (case priceDoc of
             None \<Rightarrow> [CarPluggedIn, LogicError]
           | Some prices \<Rightarrow>
               (case prices currentHour of
                  None \<Rightarrow> [CarPluggedIn, LogicError]
                | Some r \<Rightarrow>
                    (case decisionLogic (batteryLevel v) userSettings (price r) currentHour of
                       (decision, why) \<Rightarrow>
                         [CarPluggedIn, Decision decision why] @
                         sendTeslaChargeCommand getTeslaAccessToken
                           (teslaRefreshToken afterData) (vin v) decision))))"

text \<open>
  The whole function: what it logs, and the user document after its own writes. Its
  parameters beside the two snapshots are the token exchange, the price document (\<open>None\<close>
  when it does not exist or has no \<^verbatim>\<open>hourlyRates\<close>) and \<^verbatim>\<open>new Date().getHours()\<close>.
  In the override branch \<^verbatim>\<open>afterData.vehicle.vin\<close> is read inside the \<^verbatim>\<open>try\<close>, and the
  \<^verbatim>\<open>catch\<close> resets the flag as well. In the plug-in check \<^verbatim>\<open>&&\<close> reads
  \<^verbatim>\<open>afterData.vehicle\<close> only when the car was not plugged in before.
\<close>

definition manageChargingLogic ::
  "(string option \<Rightarrow> string option) \<Rightarrow> hourly_rates option \<Rightarrow> int \<Rightarrow> user_doc \<Rightarrow> user_doc \<Rightarrow>
   outcome" where
  "manageChargingLogic getTeslaAccessToken priceDoc currentHour beforeData afterData =
     (if overrideRequested beforeData afterData then
        (case vehicle afterData of
           Some v \<Rightarrow>
             \<lparr>trace = ManualOverrideDetected #
                 sendTeslaChargeCommand getTeslaAccessToken (teslaRefreshToken afterData)
                   (vin v) START @ [OverrideSuccessful],
              stored = afterData\<lparr>chargeOverride := Some False\<rparr>\<rparr>
         | None \<Rightarrow>
             \<lparr>trace = [ManualOverrideDetected, OverrideError],
              stored = afterData\<lparr>chargeOverride := Some False\<rparr>\<rparr>)
      else
        (case vehicle beforeData of
           None \<Rightarrow> \<lparr>trace = [UncaughtTypeError], stored = afterData\<rparr>
         | Some vb \<Rightarrow>
             if isPluggedIn vb then \<lparr>trace = [], stored = afterData\<rparr>
             else
               (case vehicle afterData of
                  None \<Rightarrow> \<lparr>trace = [UncaughtTypeError], stored = afterData\<rparr>
                | Some va \<Rightarrow>
                    if isPluggedIn va
                    then \<lparr>trace = pluggedInLogic getTeslaAccessToken priceDoc currentHour
                                   afterData va,
                          stored = afterData\<rparr>
                    else \<lparr>trace = [], stored = afterData\<rparr>)))"

text \<open>
  \<^verbatim>\<open>beforeData.vehicle.isPluggedIn === false && afterData.vehicle.isPluggedIn === true\<close>
\<close>

definition plugInTransition :: "user_doc \<Rightarrow> user_doc \<Rightarrow> bool" where
  "plugInTransition beforeData afterData =
     (map_option isPluggedIn (vehicle beforeData) = Some False \<and>
      map_option isPluggedIn (vehicle afterData) = Some True)"

text \<open>
  The function runs once for each update of the document, on the snapshots before and
  after it. For a sequence of snapshots, this says for each update whether the run logged
  that the car was plugged in.
\<close>

definition plugInNotifications ::
  "(string option \<Rightarrow> string option) \<Rightarrow> hourly_rates option \<Rightarrow> int \<Rightarrow> user_doc list \<Rightarrow> bool list" where
  "plugInNotifications getTeslaAccessToken priceDoc currentHour snapshots =
     map (\<lambda>(b, a). CarPluggedIn \<in>
                     set (trace (manageChargingLogic getTeslaAccessToken priceDoc currentHour b a)))
       (zip snapshots (tl snapshots))"

section \<open>Function A: fetchEnergyPrices\<close>

text \<open>
  The parsed response, from the line that reads
  \<^verbatim>\<open>parsedData.Publication_MarketDocument.TimeSeries\<close> on. An element that the code reads
  may be missing from the document, and reading inside a missing element throws a
  TypeError. A text that the code converts may fail to convert: \<^verbatim>\<open>parseInt\<close> of a position
  that is no number gives \<^verbatim>\<open>NaN\<close>, and \<^verbatim>\<open>new Date\<close> of a start that is no date gives an
  invalid date. \<^verbatim>\<open>parseFloat\<close> of the price gives a double, possibly \<^verbatim>\<open>NaN\<close>.
\<close>

datatype 'a parsed = Missing | Unparsable | Parsed 'a

record price_point =
  position :: "int parsed"
  price_amount :: "double option"

record period =
  period_start :: "int parsed"
  Point :: "price_point list"

record time_series =
  Period :: "period option"

datatype market_document = NoPublication | Publication "time_series list"

datatype feed_error = NoTimeSeries | NoPricePoints | TypeError | RangeError

text \<open>
  One entry of the \<^verbatim>\<open>hourlyRates\<close> that the function writes: the price as a double and the
  time as the time value of the date, in milliseconds since 1970.
\<close>

record written_rate =
  price' :: double
  time' :: int

type_synonym written_rates = "int \<rightharpoonup> written_rate"

text \<open>
  A JavaScript date holds a time value of at most 8.64e15 milliseconds on either side of
  1970; beyond that it is an invalid date.
\<close>

definition validTime :: "int \<Rightarrow> bool" where
  "validTime t = (\<bar>t\<bar> \<le> 8640000000000000)"

text \<open>
  \<^verbatim>\<open>parseInt(point.position[0], 10) - 1\<close>: \<^verbatim>\<open>parseInt\<close> gives the double nearest to the
  integer it reads, and the subtraction rounds again. For positions up to \<open>2^52\<close> in
  magnitude this is \<open>position - 1\<close> (lemma \<open>hourOf_exact\<close> below).
\<close>

definition hourOf :: "int \<Rightarrow> double" where
  "hourOf pos = plusDouble (roundDouble (of_int pos)) (Finite (- 1))"

text \<open>
  \<^verbatim>\<open>pointTime.setHours(pointTime.getHours() + hour)\<close> on a valid date with the time value
  \<open>t\<close>, as ECMAScript defines it, in doubles: the new time is made of the new hour and
  of the minutes, seconds and milliseconds of \<open>t\<close> (\<^verbatim>\<open>MakeTime\<close>), it is added to the
  start of the day of \<open>t\<close> (\<^verbatim>\<open>MakeDate\<close>), and the result is a valid time value only if it
  is finite and in the range of dates (\<^verbatim>\<open>TimeClip\<close>). The products of the minutes, the
  seconds and the day with their numbers of milliseconds are small integers and exact.
  The result is the new time value, or \<open>None\<close> for an invalid date. The local time
  zone of the function is taken to be UTC, as it is for Cloud Functions. For positions up to \<open>2^31\<close> in magnitude the result is
  \<open>t\<close> moved by the hours, if that is in the range of dates (lemma \<open>setHours_exact\<close>
  below).
\<close>

definition setHours :: "int \<Rightarrow> double \<Rightarrow> int option" where
  "setHours t hour =
     (case plusDouble (Finite (of_int (t div 86400000 * 86400000)))
             (plusDouble
                (plusDouble
                   (plusDouble
                      (timesDouble
                         (plusDouble (Finite (of_int (t div 3600000 mod 24))) hour) 3600000)
                      (Finite (of_int (t div 60000 mod 60 * 60000))))
                   (Finite (of_int (t div 1000 mod 60 * 1000))))
                (Finite (of_int (t mod 1000)))) of
        Finite tv \<Rightarrow> if \<bar>tv\<bar> \<le> 8640000000000000 then Some \<lfloor>tv\<rfloor> else None
      | _ \<Rightarrow> None)"

text \<open>
  \<^verbatim>\<open>points.forEach\<close>, for a period start that is a valid date (\<open>Some\<close> of its time value)
  or an invalid one (\<open>None\<close>). In the order of the body: reading a missing position or a
  missing price throws a TypeError; \<^verbatim>\<open>pointTime.toISOString()\<close> throws a RangeError when
  the date is invalid, which it is when the start is invalid, when the hour is \<^verbatim>\<open>NaN\<close> or
  infinite, or when \<^verbatim>\<open>setHours\<close> left the range of dates; otherwise the entry for the
  hour is written, over an earlier one for the same hour. The key of the entry is the
  hour, an integer.
\<close>

fun addPoints ::
  "int option \<Rightarrow> price_point list \<Rightarrow> written_rates \<Rightarrow> feed_error + written_rates" where
  "addPoints periodStartTime [] hourlyRates = Inr hourlyRates"
| "addPoints periodStartTime (point # points) hourlyRates =
     (case position point of
        Missing \<Rightarrow> Inl TypeError
      | Unparsable \<Rightarrow>
          (case price_amount point of None \<Rightarrow> Inl TypeError | Some amount \<Rightarrow> Inl RangeError)
      | Parsed pos \<Rightarrow>
          (case price_amount point of
             None \<Rightarrow> Inl TypeError
           | Some amount \<Rightarrow>
               (case periodStartTime of
                  None \<Rightarrow> Inl RangeError
                | Some t \<Rightarrow>
                    (case hourOf pos of
                       Finite hour \<Rightarrow>
                         (case setHours t (Finite hour) of
                            None \<Rightarrow> Inl RangeError
                          | Some tv \<Rightarrow>
                              addPoints periodStartTime points
                                (hourlyRates(\<lfloor>hour\<rfloor> \<mapsto>
                                   \<lparr>price' = divideDouble amount 1000, time' = tv\<rparr>)))
                     | _ \<Rightarrow> Inl RangeError))))"

text \<open>
  The part of the \<^verbatim>\<open>try\<close> that works on the relevant period: the check for points, the
  period start (a TypeError when the document has none) and the loop.
\<close>

definition periodRates :: "period \<Rightarrow> feed_error + written_rates" where
  "periodRates p =
     (if Point p = [] then Inl NoPricePoints
      else
        (case period_start p of
           Missing \<Rightarrow> Inl TypeError
         | Unparsable \<Rightarrow> addPoints None (Point p) Map.empty
         | Parsed t \<Rightarrow> addPoints (if validTime t then Some t else None) (Point p) Map.empty))"

text \<open>
  The body of the \<^verbatim>\<open>try\<close> up to the write: the new \<^verbatim>\<open>hourlyRates\<close> or the error thrown.
  An empty list of time series stands for a missing \<^verbatim>\<open>TimeSeries\<close> as well.
\<close>

definition hourlyRatesOf :: "market_document \<Rightarrow> feed_error + written_rates" where
  "hourlyRatesOf parsedData =
     (case parsedData of
        NoPublication \<Rightarrow> Inl TypeError
      | Publication timeSeries \<Rightarrow>
          if timeSeries = [] then Inl NoTimeSeries
          else
            (case Period (last timeSeries) of
               None \<Rightarrow> Inl TypeError
             | Some p \<Rightarrow> periodRates p))"

text \<open>
  The function on the stored price document: \<^verbatim>\<open>set\<close> replaces it, and an error is only
  logged, leaving the document as it was.
\<close>

definition fetchEnergyPrices ::
  "written_rates option \<Rightarrow> market_document \<Rightarrow> written_rates option" where
  "fetchEnergyPrices storedRates parsedData =
     (case hourlyRatesOf parsedData of
        Inl e \<Rightarrow> storedRates
      | Inr hourlyRates \<Rightarrow> Some hourlyRates)"

text \<open>
  The specification's condition on the positions, in its own words: they are the
  contiguous range 1..N.
\<close>

definition spec_positions_contiguous :: "price_point list \<Rightarrow> bool" where
  "spec_positions_contiguous points =
     (map position points = map (\<lambda>k. Parsed (int k)) [1..<Suc (length points)])"

section \<open>Example documents\<close>

text \<open>A day of prices with two equally cheap windows of three hours, at 4 and at 13.\<close>

definition examplePrices :: "double list" where
  "examplePrices =
     map Finite
       [30, 28, 25, 20, 15, 12, 12, 15, 33, 40, 38, 30,
        22, 12, 12, 15, 35, 45, 50, 48, 40, 35, 31, 29]"

text \<open>
  A day of prices written \<^verbatim>\<open>0.1, 0.2, 0.3, 0.3, 0.2, 0.1\<close> and then \<^verbatim>\<open>0.5\<close> eighteen times:
  each is the double nearest to the decimal number.
\<close>

definition roundingPrices :: "double list" where
  "roundingPrices =
     map roundDouble
       [1 / 10, 2 / 10, 3 / 10, 3 / 10, 2 / 10, 1 / 10, 1 / 2, 1 / 2, 1 / 2, 1 / 2, 1 / 2, 1 / 2,
        1 / 2, 1 / 2, 1 / 2, 1 / 2, 1 / 2, 1 / 2, 1 / 2, 1 / 2, 1 / 2, 1 / 2, 1 / 2, 1 / 2]"

text \<open>
  Three users: one asks for 25 hours, one has no settings, one asks for 3 hours.
\<close>

definition exampleUsers :: users where
  "exampleUsers =
     [(''u1'', \<lparr>settings = Some \<lparr>chargingDuration = Some 25, emergencyThreshold = Some 20,
                                  targetBattery = Some 80, optimalStartHour = Some 2\<rparr>,
               vehicle = None, teslaRefreshToken = None, chargeOverride = None\<rparr>),
      (''u2'', \<lparr>settings = None, vehicle = None, teslaRefreshToken = None,
               chargeOverride = None\<rparr>),
      (''u3'', \<lparr>settings = Some \<lparr>chargingDuration = Some 3, emergencyThreshold = Some 20,
                                  targetBattery = Some 80, optimalStartHour = Some 2\<rparr>,
               vehicle = None, teslaRefreshToken = None, chargeOverride = None\<rparr>)]"

text \<open>The token exchange, once answering with an access token and once failing.\<close>

definition exchangeSucceeds :: "string option \<Rightarrow> string option" where
  "exchangeSucceeds refreshToken = Some ''access-token''"

definition exchangeFails :: "string option \<Rightarrow> string option" where
  "exchangeFails refreshToken = None"

text \<open>A price document with the same price for each of the 24 hours.\<close>

definition flatPrices :: hourly_rates where
  "flatPrices h = (if 0 \<le> h \<and> h < 24 then Some \<lparr>price = 1 / 4, time = h\<rparr> else None)"

text \<open>
  A user whose car is not plugged in; the same user with the car plugged in; and the same
  user with the car plugged in, a full battery and the override flag set.
\<close>

definition unpluggedDoc :: user_doc where
  "unpluggedDoc =
     \<lparr>settings = Some \<lparr>chargingDuration = Some 3, emergencyThreshold = Some 20,
                        targetBattery = Some 80, optimalStartHour = Some 1\<rparr>,
      vehicle = Some \<lparr>vin = ''5YJ3E1EA7KF000001'', isCharging = False, isPluggedIn = False,
                       batteryLevel = 50\<rparr>,
      teslaRefreshToken = Some ''refresh-token'',
      chargeOverride = Some False\<rparr>"

definition pluggedDoc :: user_doc where
  "pluggedDoc =
     unpluggedDoc\<lparr>vehicle := Some \<lparr>vin = ''5YJ3E1EA7KF000001'', isCharging = False,
                                     isPluggedIn = True, batteryLevel = 50\<rparr>\<rparr>"

definition fullBatteryOverrideDoc :: user_doc where
  "fullBatteryOverrideDoc =
     unpluggedDoc\<lparr>vehicle := Some \<lparr>vin = ''5YJ3E1EA7KF000001'', isCharging = False,
                                     isPluggedIn = True, batteryLevel = 100\<rparr>,
                  chargeOverride := Some True\<rparr>"

definition exampleTelemetryUsers :: users where
  "exampleTelemetryUsers = [(''u1'', pluggedDoc)]"

text \<open>
  A period that starts on 1 January 2024 at 23:00 UTC, with two points at the positions 1
  and 3, and the response that holds it.
\<close>

definition gappedPeriod :: period where
  "gappedPeriod =
     \<lparr>period_start = Parsed 1704150000000,
      Point = [\<lparr>position = Parsed 1, price_amount = Some (Finite 50)\<rparr>,
               \<lparr>position = Parsed 3, price_amount = Some (Finite 70)\<rparr>]\<rparr>"

definition gappedFeed :: market_document where
  "gappedFeed = Publication [\<lparr>Period = Some gappedPeriod\<rparr>]"

text \<open>The same with the positions 1 and 3000000000.\<close>

definition farPeriod :: period where
  "farPeriod =
     \<lparr>period_start = Parsed 1704150000000,
      Point = [\<lparr>position = Parsed 1, price_amount = Some (Finite 50)\<rparr>,
               \<lparr>position = Parsed 3000000000, price_amount = Some (Finite 70)\<rparr>]\<rparr>"

definition farFeed :: market_document where
  "farFeed = Publication [\<lparr>Period = Some farPeriod\<rparr>]"

text \<open>A stored price document with one entry.\<close>

definition storedRates :: written_rates where
  "storedRates = Map.empty(0 \<mapsto> \<lparr>price' = Finite (1 / 4), time' = 1704063600000\<rparr>)"

section \<open>Rounding to a double\<close>

lemma bitlen_powi_bounds:
  assumes "0 < p"
  shows "(2::rat) powi (bitlen p - 1) \<le> of_int p" and "of_int p < (2::rat) powi (bitlen p)"
proof -
  from bitlen_bounds[OF assms]
  have lo: "2 ^ nat (bitlen p - 1) \<le> p" and hi: "p < 2 ^ nat (bitlen p)" by auto
  have b1: "1 \<le> bitlen p" using assms by (auto simp: bitlen_alt_def)
  have "(2::rat) powi (bitlen p - 1) = of_int (2 ^ nat (bitlen p - 1))"
    using b1 by (simp add: power_int_def)
  also have "\<dots> \<le> of_int p" using lo by (simp only: of_int_le_iff)
  finally show "(2::rat) powi (bitlen p - 1) \<le> of_int p" .
  have "(of_int p :: rat) < of_int (2 ^ nat (bitlen p))" using hi by (simp only: of_int_less_iff)
  also have "\<dots> = 2 powi (bitlen p)" using b1 by (simp add: power_int_def)
  finally show "of_int p < (2::rat) powi (bitlen p)" .
qed

lemma exponentOf_bounds:
  assumes "0 < x"
  shows "2 powi (exponentOf x) \<le> x" and "x < 2 powi (exponentOf x + 1)"
proof -
  obtain p q where pq: "quotient_of x = (p, q)" by (cases "quotient_of x")
  then have q: "0 < q" and x: "x = of_int p / of_int q"
    using quotient_of_denom_pos quotient_of_div by blast+
  have p: "0 < p" using assms q x by (simp add: zero_less_divide_iff)
  let ?k = "bitlen p - bitlen q"
  note bp = bitlen_powi_bounds[OF p] and bq = bitlen_powi_bounds[OF q]
  have qpos: "(0::rat) < of_int q" using q by simp
  have "x < 2 powi (bitlen p) / 2 powi (bitlen q - 1)"
    unfolding x using bp(2) bq(1) p
    by (intro frac_less) (auto simp: zero_less_power_int)
  also have "\<dots> = 2 powi (bitlen p - (bitlen q - 1))"
    by (rule power_int_diff[symmetric]) simp
  also have "bitlen p - (bitlen q - 1) = ?k + 1" by simp
  finally have hi: "x < 2 powi (?k + 1)" .
  have "2 powi (bitlen p - 1) / 2 powi (bitlen q) \<le> x"
    unfolding x using bp(1) bq(2) qpos p
    by (intro frac_le) (auto simp: less_imp_le)
  moreover have "2 powi (bitlen p - 1) / 2 powi (bitlen q) =
      (2::rat) powi (bitlen p - 1 - bitlen q)"
    by (rule power_int_diff[symmetric]) simp
  moreover have "bitlen p - 1 - bitlen q = ?k - 1" by simp
  ultimately have lo: "2 powi (?k - 1) \<le> x" by simp
  show "2 powi (exponentOf x) \<le> x"
    using lo by (simp add: exponentOf_def pq)
  show "x < 2 powi (exponentOf x + 1)"
    using hi by (auto simp: exponentOf_def pq not_le)
qed

lemma exponent_unique:
  assumes "(2::rat) powi e \<le> x" "x < 2 powi (e + 1)" "2 powi e' \<le> x" "x < 2 powi (e' + 1)"
  shows "e = e'"
proof (rule ccontr)
  assume "e \<noteq> e'"
  then consider "e + 1 \<le> e'" | "e' + 1 \<le> e" by linarith
  then show False
  proof cases
    case 1
    then have "(2::rat) powi (e + 1) \<le> 2 powi e'" by (intro power_int_increasing) auto
    with assms show False by linarith
  next
    case 2
    then have "(2::rat) powi (e' + 1) \<le> 2 powi e" by (intro power_int_increasing) auto
    with assms show False by linarith
  qed
qed

lemma exponentOf_eq:
  "0 < x \<Longrightarrow> 2 powi e \<le> x \<Longrightarrow> x < 2 powi (e + 1) \<Longrightarrow> exponentOf x = e"
  using exponent_unique[OF exponentOf_bounds] by blast

lemma roundHalfEven_le: "roundHalfEven x \<le> \<lfloor>x\<rfloor> + 1"
  by (simp add: roundHalfEven_def)

text \<open>
  For a number in the range of the normal doubles, rounding is rounding of its magnitude
  to a multiple of the spacing of its binade.
\<close>

lemma roundDouble_binade_abs:
  assumes "x \<noteq> 0" and "2 powi e \<le> \<bar>x\<bar>" and "\<bar>x\<bar> < 2 powi (e + 1)"
    and "- 1022 \<le> e" and "e \<le> 1022"
  shows "roundDouble x =
     Finite (if 0 < x then of_int (roundHalfEven (\<bar>x\<bar> / 2 powi (e - 52))) * 2 powi (e - 52)
             else - (of_int (roundHalfEven (\<bar>x\<bar> / 2 powi (e - 52))) * 2 powi (e - 52)))"
proof -
  let ?ulp = "(2::rat) powi (e - 52)"
  have ax: "0 < \<bar>x\<bar>" using assms(1) by simp
  have m: "max (exponentOf \<bar>x\<bar>) (- 1022) = e"
    using assms ax by (simp add: exponentOf_eq)
  have ulp: "0 < ?ulp" by (simp add: zero_less_power_int)
  have "\<bar>x\<bar> / ?ulp < 2 powi (e + 1) / ?ulp"
    using assms(3) ulp by (simp add: divide_strict_right_mono)
  also have "2 powi (e + 1) / ?ulp = (2::rat) powi 53"
    by (simp add: power_int_diff[symmetric] del: power_int_numeral)
  finally have "\<bar>x\<bar> / ?ulp < of_int (2 ^ 53)" by simp
  then have "\<lfloor>\<bar>x\<bar> / ?ulp\<rfloor> < 2 ^ 53" by (simp only: floor_less_iff)
  then have "roundHalfEven (\<bar>x\<bar> / ?ulp) \<le> 2 ^ 53"
    using roundHalfEven_le[of "\<bar>x\<bar> / ?ulp"] by linarith
  then have "(of_int (roundHalfEven (\<bar>x\<bar> / ?ulp)) :: rat) \<le> of_int (2 ^ 53)"
    by (simp only: of_int_le_iff)
  then have "of_int (roundHalfEven (\<bar>x\<bar> / ?ulp)) * ?ulp \<le> 2 powi 53 * ?ulp"
    using ulp by (simp add: mult_right_mono)
  also have "2 powi 53 * ?ulp = (2::rat) powi (e + 1)"
    by (simp add: power_int_add[symmetric] add.commute del: power_int_numeral)
  also have "\<dots> \<le> 2 powi 1023" using assms(5) by (intro power_int_increasing) auto
  also have "\<dots> < (2::rat) powi 1024" by (intro power_int_strict_increasing) auto
  finally have "\<not> 2 powi 1024 \<le> of_int (roundHalfEven (\<bar>x\<bar> / ?ulp)) * ?ulp" by simp
  then show ?thesis
    unfolding roundDouble_def Let_def m
    using assms(1) by (simp del: power_int_numeral)
qed

lemma roundDouble_binade:
  assumes "0 < x" and "2 powi e \<le> x" and "x < 2 powi (e + 1)" and "- 1022 \<le> e" and "e \<le> 1022"
  shows "roundDouble x = Finite (of_int (roundHalfEven (x / 2 powi (e - 52))) * 2 powi (e - 52))"
  using roundDouble_binade_abs[of x e] assms by simp

text \<open>
  Integers below \<open>2^53\<close> in magnitude are doubles, and sums and products that stay below
  it are exact.
\<close>

lemma roundHalfEven_of_int [simp]: "roundHalfEven (of_int j) = j"
  by (simp add: roundHalfEven_def)

lemma roundHalfEven_ge: "\<lfloor>x\<rfloor> \<le> roundHalfEven x"
  by (simp add: roundHalfEven_def)

lemma roundDouble_of_int:
  assumes "\<bar>k\<bar> < 2 ^ 53"
  shows "roundDouble (of_int k) = Finite (of_int k)"
proof (cases "k = 0")
  case True
  then show ?thesis by (simp add: roundDouble_def)
next
  case False
  let ?x = "of_int k :: rat"
  let ?e = "exponentOf \<bar>?x\<bar>"
  have x0: "?x \<noteq> 0" and ax: "0 < \<bar>?x\<bar>" using False by simp_all
  note b = exponentOf_bounds[OF ax]
  have one: "1 \<le> \<bar>?x\<bar>" using False by (simp flip: of_int_abs)
  have e0: "0 \<le> ?e"
  proof (rule ccontr)
    assume "\<not> 0 \<le> ?e"
    then have "?e + 1 \<le> 0" by simp
    then have "(2::rat) powi (?e + 1) \<le> 2 powi 0" by (intro power_int_increasing) auto
    with b(2) one show False by simp
  qed
  have lt: "\<bar>?x\<bar> < 2 powi 53"
    using assms by (simp flip: of_int_abs)
  have e52: "?e \<le> 52"
  proof (rule ccontr)
    assume "\<not> ?e \<le> 52"
    then have "53 \<le> ?e" by simp
    then have "(2::rat) powi 53 \<le> 2 powi ?e" by (intro power_int_increasing) auto
    with b(1) lt show False by linarith
  qed
  have "(2::rat) powi (?e - 52) = 2 powi (- (52 - ?e))" by simp
  also have "\<dots> = 1 / 2 powi (52 - ?e)" by (rule power_int_minus_divide)
  also have "(2::rat) powi (52 - ?e) = 2 ^ nat (52 - ?e)"
    using e52 by (simp add: power_int_nonneg_exp)
  finally have ulp: "(2::rat) powi (?e - 52) = 1 / of_int (2 ^ nat (52 - ?e))" by simp
  have q: "\<bar>?x\<bar> / 2 powi (?e - 52) = of_int (\<bar>k\<bar> * 2 ^ nat (52 - ?e))"
    unfolding ulp by simp
  have r: "of_int (roundHalfEven (\<bar>?x\<bar> / 2 powi (?e - 52))) * (2::rat) powi (?e - 52) = \<bar>?x\<bar>"
    unfolding q roundHalfEven_of_int unfolding ulp by simp
  from roundDouble_binade_abs[OF x0 b] e0 e52
  show ?thesis
    unfolding r using False by (cases "0 < k") auto
qed

lemma plusDouble_exact:
  "\<bar>a + b\<bar> < 2 ^ 53 \<Longrightarrow>
   plusDouble (Finite (of_int a)) (Finite (of_int b)) = Finite (of_int (a + b))"
  using roundDouble_of_int[of "a + b"] by simp

lemma timesDouble_exact:
  "\<bar>a * int c\<bar> < 2 ^ 53 \<Longrightarrow>
   timesDouble (Finite (of_int a)) c = Finite (of_int (a * int c))"
  using roundDouble_of_int[of "a * int c"] by simp

text \<open>An integer from \<open>2^53\<close> on rounds to a double from \<open>2^53\<close> on.\<close>

lemma roundDouble_large:
  assumes "2 ^ 53 \<le> \<bar>v\<bar>" and "\<bar>v\<bar> < 2 ^ 54"
  shows "\<exists>r. roundDouble (of_int v) = Finite r \<and> 2 ^ 53 \<le> \<bar>r\<bar>"
proof -
  let ?x = "of_int v :: rat"
  have x0: "?x \<noteq> 0" using assms(1) by auto
  have lo: "(2::rat) powi 53 \<le> \<bar>?x\<bar>"
    using assms(1) by (simp flip: of_int_abs)
  have hi: "\<bar>?x\<bar> < 2 powi (53 + 1)"
    using assms(2) by (simp flip: of_int_abs)
  let ?n = "roundHalfEven (\<bar>?x\<bar> / 2 powi (53 - 52))"
  have "\<bar>?x\<bar> / 2 powi (53 - 52) = of_int \<bar>v\<bar> / 2" by simp
  then have "\<lfloor>\<bar>?x\<bar> / 2 powi (53 - 52)\<rfloor> = \<bar>v\<bar> div 2"
    by (simp add: floor_divide_of_int_eq[of "\<bar>v\<bar>" 2, where ?'a = rat, simplified])
  then have "\<bar>v\<bar> div 2 \<le> ?n" using roundHalfEven_ge[of "\<bar>?x\<bar> / 2 powi (53 - 52)"] by simp
  moreover have "2 ^ 52 \<le> \<bar>v\<bar> div 2" using assms(1) by simp
  ultimately have n: "2 ^ 52 \<le> ?n" by linarith
  then have "(of_int (2 ^ 52) :: rat) \<le> of_int ?n" by (simp only: of_int_le_iff)
  then have big: "(2::rat) ^ 53 \<le> of_int ?n * 2 powi (53 - 52)" by simp
  from roundDouble_binade_abs[OF x0 lo hi]
  have "roundDouble ?x = Finite (if 0 < ?x then of_int ?n * 2 powi (53 - 52)
                                 else - (of_int ?n * 2 powi (53 - 52)))"
    by simp
  with big show ?thesis by (auto simp: abs_if)
qed

lemma floor_rat_numeral_div:
  "\<lfloor>numeral a / numeral b :: rat\<rfloor> = numeral a div numeral b"
  using floor_divide_of_int_eq[of "numeral a" "numeral b", where ?'a = rat] by simp

text \<open>
  The facts that evaluate the roundings of the examples, which lie between 1/32 and 256,
  or near \<open>2^31\<close> or \<open>2^53\<close>.
\<close>

lemmas roundDouble_eval = floor_rat_numeral_div roundHalfEven_def
  roundDouble_binade[where e = "- 5"] roundDouble_binade[where e = "- 4"]
  roundDouble_binade[where e = "- 3"] roundDouble_binade[where e = "- 2"]
  roundDouble_binade[where e = "- 1"] roundDouble_binade[where e = "0"]
  roundDouble_binade[where e = "1"] roundDouble_binade[where e = "2"]
  roundDouble_binade[where e = "3"] roundDouble_binade[where e = "4"]
  roundDouble_binade[where e = "5"] roundDouble_binade[where e = "6"]
  roundDouble_binade[where e = "7"] roundDouble_binade[where e = "31"]
  roundDouble_binade[where e = "53"]

section \<open>The window selector finds the first window of least computed average\<close>

lemma lessDouble_irrefl [simp]: "\<not> lessDouble a a"
  by (cases a) auto

lemma lessDouble_trans: "lessDouble a b \<Longrightarrow> lessDouble b c \<Longrightarrow> lessDouble a c"
  by (cases a; cases b; cases c) auto

lemma lessDouble_below_inf: "lessDouble a b \<Longrightarrow> lessDouble a PosInf"
  by (cases a; cases b) auto

lemma lessDouble_not_less:
  "lessDouble a l \<Longrightarrow> \<not> lessDouble b l \<Longrightarrow> lessDouble b PosInf \<Longrightarrow> lessDouble a b"
  by (cases a; cases b; cases l) auto

lemma windowLoop_inv:
  "windowInv prices d i st \<Longrightarrow> i + d \<le> Suc (length prices) \<Longrightarrow>
   windowInv prices d (Suc (length prices) - d) (windowLoop prices d i st)"
proof (induction prices d i st rule: windowLoop.induct)
  case (1 prices d i b lo)
  let ?a = "averagePrice prices i d"
  show ?case
  proof (cases "int i \<le> int (length prices) - int d")
    case False
    with "1.prems"(2) have "i = Suc (length prices) - d" by linarith
    with False "1.prems"(1) show ?thesis by (subst windowLoop.simps) simp
  next
    case run: True
    then have bound: "Suc i + d \<le> Suc (length prices)" by linarith
    show ?thesis
    proof (cases "lessDouble ?a lo")
      case True
      have "windowInv prices d (Suc i) (int i, ?a)"
        using "1.prems"(1) True
        unfolding windowInv_def
        by (auto simp: less_Suc_eq
            dest: lessDouble_trans lessDouble_below_inf lessDouble_not_less)
      from "1.IH"(1)[OF run True this bound] show ?thesis
        using run True by (subst windowLoop.simps) simp
    next
      case False
      have "windowInv prices d (Suc i) (b, lo)"
        using "1.prems"(1) False
        unfolding windowInv_def
        by (auto simp: less_Suc_eq)
      from "1.IH"(2)[OF run False this bound] show ?thesis
        using run False by (subst windowLoop.simps) simp
    qed
  qed
qed

lemma bestStartHourOf_inv:
  assumes "d \<le> length prices"
  shows "windowInv prices d (Suc (length prices) - d)
           (bestStartHourOf prices d, snd (windowLoop prices d 0 (- 1, PosInf)))"
proof -
  have "windowInv prices d 0 (- 1, PosInf)"
    by (simp add: windowInv_def)
  from windowLoop_inv[OF this] assms show ?thesis
    by (simp add: bestStartHourOf_def)
qed

text \<open>The prices of the example as doubles, and its averages at the start hours 0 and 3.\<close>

lemma roundingPrices_values:
  "roundingPrices =
     [Finite (3602879701896397 / 36028797018963968), Finite (3602879701896397 / 18014398509481984),
      Finite (5404319552844595 / 18014398509481984), Finite (5404319552844595 / 18014398509481984),
      Finite (3602879701896397 / 18014398509481984), Finite (3602879701896397 / 36028797018963968),
      Finite (1 / 2), Finite (1 / 2), Finite (1 / 2), Finite (1 / 2), Finite (1 / 2),
      Finite (1 / 2), Finite (1 / 2), Finite (1 / 2), Finite (1 / 2), Finite (1 / 2),
      Finite (1 / 2), Finite (1 / 2), Finite (1 / 2), Finite (1 / 2), Finite (1 / 2),
      Finite (1 / 2), Finite (1 / 2), Finite (1 / 2)]"
  by (simp add: roundingPrices_def roundDouble_eval)

lemma roundingPrices_best: "bestStartHourOf roundingPrices 3 = 3"
  by (simp add: roundingPrices_values bestStartHourOf_def windowLoop.simps averagePrice_def
      roundDouble_eval)

lemma roundingPrices_averages:
  "averagePrice roundingPrices 0 3 = Finite (7205759403792795 / 36028797018963968)"
  "averagePrice roundingPrices 3 3 = Finite (7205759403792793 / 36028797018963968)"
  by (simp_all add: roundingPrices_values averagePrice_def roundDouble_eval)

text \<open>
  Claim C1, as stated, fails: for the prices 0.1, 0.2, 0.3, 0.3, 0.2, 0.1, 0.5, ... and a
  duration of 3 hours the windows at 0 and at 3 hold the same three prices and so have the
  same arithmetic mean, which no other window undercuts; the smallest start hour of least
  mean is 0. The loop returns 3: added from left to right in doubles, the sum of the
  window at 0 is rounded up and the sum of the window at 3 is not.
\<close>

theorem first_cheapest_counterexample:
  "length roundingPrices = 24 \<and>
   bestStartHourOf roundingPrices 3 = 3 \<and>
   spec_mean roundingPrices 0 3 = spec_mean roundingPrices 3 3 \<and>
   averagePrice roundingPrices 0 3 = Finite (7205759403792795 / 36028797018963968) \<and>
   averagePrice roundingPrices 3 3 = Finite (7205759403792793 / 36028797018963968)"
  by (simp add: roundingPrices_best roundingPrices_averages)
    (simp add: roundingPrices_values spec_mean_def exactValue_def)

text \<open>
  Claim C1, amended. For 24 prices and a duration \<open>d\<close> from 1 to 24, take as the average
  of a window what the code computes: the prices added from left to right in doubles,
  starting from 0, and the sum divided by \<open>d\<close>. If some valid window has an average below
  \<^verbatim>\<open>Infinity\<close>, the start hour \<open>s\<close> that the loop returns is a valid start hour
  (\<open>s \<le> 24 - d\<close>), no valid window has an average below that of \<open>s\<close>, and every earlier
  window has an average strictly above that of \<open>s\<close>, or none below \<^verbatim>\<open>Infinity\<close> (it is
  \<^verbatim>\<open>NaN\<close> or \<^verbatim>\<open>Infinity\<close>): \<open>s\<close> is the smallest start hour of least computed average. If
  no valid window has an average below \<^verbatim>\<open>Infinity\<close>, the loop returns \<open>-1\<close>.
\<close>

theorem optimal_window_is_first_cheapest:
  assumes "length prices = 24" and "1 \<le> d" and "d \<le> 24"
  shows "((\<exists>j. j \<le> 24 - d \<and> lessDouble (averagePrice prices j d) PosInf) \<longrightarrow>
           (\<exists>s. bestStartHourOf prices d = int s \<and> s \<le> 24 - d \<and>
              lessDouble (averagePrice prices s d) PosInf \<and>
              (\<forall>s'. s' \<le> 24 - d \<longrightarrow>
                 \<not> lessDouble (averagePrice prices s' d) (averagePrice prices s d)) \<and>
              (\<forall>s'. s' < s \<longrightarrow>
                 lessDouble (averagePrice prices s d) (averagePrice prices s' d) \<or>
                 \<not> lessDouble (averagePrice prices s' d) PosInf))) \<and>
         ((\<forall>j. j \<le> 24 - d \<longrightarrow> \<not> lessDouble (averagePrice prices j d) PosInf) \<longrightarrow>
           bestStartHourOf prices d = - 1)"
proof -
  let ?b = "bestStartHourOf prices d"
  have n: "Suc (length prices) - d = Suc (24 - d)" using assms by simp
  have "d \<le> length prices" using assms by simp
  from bestStartHourOf_inv[OF this]
  have inv: "windowInv prices d (Suc (24 - d))
      (?b, snd (windowLoop prices d 0 (- 1, PosInf)))"
    by (simp only: n)
  show ?thesis
  proof (cases "?b = - 1")
    case True
    with inv have "\<forall>j<Suc (24 - d). \<not> lessDouble (averagePrice prices j d) PosInf"
      by (auto simp: windowInv_def)
    with True show ?thesis by (auto simp: less_Suc_eq_le)
  next
    case False
    with inv have b: "0 \<le> ?b" "nat ?b < Suc (24 - d)"
      and lo: "lessDouble (averagePrice prices (nat ?b) d) PosInf"
      and least: "\<forall>j<Suc (24 - d). \<not> lessDouble (averagePrice prices j d)
                                        (averagePrice prices (nat ?b) d)"
      and first: "\<forall>j<nat ?b. lessDouble (averagePrice prices (nat ?b) d)
                                  (averagePrice prices j d) \<or>
                               \<not> lessDouble (averagePrice prices j d) PosInf"
      by (auto simp: windowInv_def)
    have "?b = int (nat ?b) \<and> nat ?b \<le> 24 - d \<and>
        lessDouble (averagePrice prices (nat ?b) d) PosInf \<and>
        (\<forall>s'. s' \<le> 24 - d \<longrightarrow>
           \<not> lessDouble (averagePrice prices s' d) (averagePrice prices (nat ?b) d)) \<and>
        (\<forall>s'. s' < nat ?b \<longrightarrow>
           lessDouble (averagePrice prices (nat ?b) d) (averagePrice prices s' d) \<or>
           \<not> lessDouble (averagePrice prices s' d) PosInf)"
      using b lo least first by (simp add: less_Suc_eq_le)
    then have ex: "\<exists>s. ?b = int s \<and> s \<le> 24 - d \<and>
        lessDouble (averagePrice prices s d) PosInf \<and>
        (\<forall>s'. s' \<le> 24 - d \<longrightarrow>
           \<not> lessDouble (averagePrice prices s' d) (averagePrice prices s d)) \<and>
        (\<forall>s'. s' < s \<longrightarrow>
           lessDouble (averagePrice prices s d) (averagePrice prices s' d) \<or>
           \<not> lessDouble (averagePrice prices s' d) PosInf)"
      by (rule exI)
    have nb: "\<not> (\<forall>j. j \<le> 24 - d \<longrightarrow> \<not> lessDouble (averagePrice prices j d) PosInf)"
      using b lo by (auto simp: less_Suc_eq_le)
    show ?thesis
    proof (intro conjI impI)
      show "\<exists>s. ?b = int s \<and> s \<le> 24 - d \<and>
        lessDouble (averagePrice prices s d) PosInf \<and>
        (\<forall>s'. s' \<le> 24 - d \<longrightarrow>
           \<not> lessDouble (averagePrice prices s' d) (averagePrice prices s d)) \<and>
        (\<forall>s'. s' < s \<longrightarrow>
           lessDouble (averagePrice prices s d) (averagePrice prices s' d) \<or>
           \<not> lessDouble (averagePrice prices s' d) PosInf)"
        by (rule ex)
    next
      assume "\<forall>j. j \<le> 24 - d \<longrightarrow> \<not> lessDouble (averagePrice prices j d) PosInf"
      with nb show "?b = - 1" by contradiction
    qed
  qed
qed

theorem optimal_window_is_first_cheapest_witness:
  "length roundingPrices = 24 \<and> (1::nat) \<le> 3 \<and> (3::nat) \<le> 24 \<and>
   lessDouble (averagePrice roundingPrices 0 3) PosInf \<and>
   bestStartHourOf roundingPrices 3 = 3 \<and>
   \<not> lessDouble (averagePrice roundingPrices 0 3) (averagePrice roundingPrices 3 3) \<and>
   lessDouble (averagePrice roundingPrices 3 3) (averagePrice roundingPrices 0 3)"
proof -
  have len: "length roundingPrices = 24" by (simp add: roundingPrices_def)
  have fin: "lessDouble (averagePrice roundingPrices 0 3) PosInf"
    by (simp add: roundingPrices_averages)
  then have some: "\<exists>j. j \<le> 24 - 3 \<and> lessDouble (averagePrice roundingPrices j 3) PosInf"
    by (intro exI[of _ 0]) simp
  from optimal_window_is_first_cheapest[OF len, of 3] some
  obtain s where s: "bestStartHourOf roundingPrices 3 = int s"
    and le: "\<forall>s'. s' \<le> 24 - 3 \<longrightarrow>
        \<not> lessDouble (averagePrice roundingPrices s' 3) (averagePrice roundingPrices s 3)"
    and lt: "\<forall>s'. s' < s \<longrightarrow>
        lessDouble (averagePrice roundingPrices s 3) (averagePrice roundingPrices s' 3) \<or>
        \<not> lessDouble (averagePrice roundingPrices s' 3) PosInf"
    by auto
  from s have s3: "s = 3" by (simp add: roundingPrices_best)
  from le[rule_format, of 0] lt[rule_format, of 0] len fin show ?thesis
    unfolding s3 by (simp add: roundingPrices_best)
qed

section \<open>No window, no update\<close>

lemma bestStartHourOf_insufficient: "length prices < d \<Longrightarrow> bestStartHourOf prices d = - 1"
  by (simp add: bestStartHourOf_def windowLoop.simps)

lemma calculateOptimalWindow_nth:
  "i < length usersSnapshot \<Longrightarrow> usersSnapshot ! i = (userId, userData) \<Longrightarrow>
   calculateOptimalWindow (Some prices) usersSnapshot ! i =
     (userId, applyWindowUpdate prices userData)"
  by (simp add: calculateOptimalWindow_def)

text \<open>
  Claim C5. Take any user of the collection. If the user's charging duration exceeds the
  number of prices, the loop does not run, \<open>bestStartHour\<close> stays at its "no window" value
  \<open>-1\<close>, no update is queued and the user's document, with its stored
  \<open>optimalStartHour\<close>, is the same after the batch. A user without settings or without a
  charging duration is skipped: no update, same document.
\<close>

theorem no_window_no_update:
  assumes "i < length usersSnapshot" and "usersSnapshot ! i = (userId, userData)"
  shows "(\<forall>s d. settings userData = Some s \<and> chargingDuration s = Some d \<and> length prices < d \<longrightarrow>
            bestStartHourOf prices d = - 1 \<and> windowUpdate prices userData = None \<and>
            calculateOptimalWindow (Some prices) usersSnapshot ! i = (userId, userData)) \<and>
         (settings userData = None \<or>
          (\<exists>s. settings userData = Some s \<and> chargingDuration s = None) \<longrightarrow>
            windowUpdate prices userData = None \<and>
            calculateOptimalWindow (Some prices) usersSnapshot ! i = (userId, userData))"
  using assms
  by (auto simp: calculateOptimalWindow_nth applyWindowUpdate_def windowUpdate_def
      bestStartHourOf_insufficient)

theorem no_window_no_update_witness:
  "length examplePrices = 24 \<and>
   bestStartHourOf examplePrices 25 = - 1 \<and>
   calculateOptimalWindow (Some examplePrices) exampleUsers ! 0 = exampleUsers ! 0 \<and>
   bestStartHourOf [] 3 = - 1 \<and>
   calculateOptimalWindow (Some []) exampleUsers ! 2 = exampleUsers ! 2 \<and>
   calculateOptimalWindow (Some examplePrices) exampleUsers ! 1 = exampleUsers ! 1 \<and>
   calculateOptimalWindow (Some examplePrices) exampleUsers ! 2 \<noteq> exampleUsers ! 2"
proof -
  have len: "length examplePrices = 24" by (simp add: examplePrices_def)
  have best: "bestStartHourOf examplePrices 3 = 4"
    by (simp add: examplePrices_def bestStartHourOf_def windowLoop.simps averagePrice_def
        roundDouble_eval)
  have u0: "(0::nat) < length exampleUsers" and u1: "(1::nat) < length exampleUsers"
    and u2: "(2::nat) < length exampleUsers"
    by (simp_all add: exampleUsers_def)
  have a: "bestStartHourOf examplePrices 25 = - 1 \<and>
      calculateOptimalWindow (Some examplePrices) exampleUsers ! 0 = exampleUsers ! 0"
    using no_window_no_update[OF u0, of "fst (exampleUsers ! 0)" "snd (exampleUsers ! 0)"
        examplePrices] len
    by (simp add: exampleUsers_def)
  have b: "bestStartHourOf [] 3 = - 1 \<and>
      calculateOptimalWindow (Some []) exampleUsers ! 2 = exampleUsers ! 2"
    using no_window_no_update[OF u2, of "fst (exampleUsers ! 2)" "snd (exampleUsers ! 2)" "[]"]
    by (simp add: exampleUsers_def)
  have c: "calculateOptimalWindow (Some examplePrices) exampleUsers ! 1 = exampleUsers ! 1"
    using no_window_no_update[OF u1, of "fst (exampleUsers ! 1)" "snd (exampleUsers ! 1)"
        examplePrices]
    by (simp add: exampleUsers_def)
  have d: "calculateOptimalWindow (Some examplePrices) exampleUsers ! 2 \<noteq> exampleUsers ! 2"
    by (simp add: calculateOptimalWindow_def exampleUsers_def applyWindowUpdate_def
        windowUpdate_def setOptimalStartHour_def best)
  from len a b c d show ?thesis by simp
qed

section \<open>The telemetry webhook applies the truthy fields only\<close>

lemma updateDoc_frame:
  assumes "\<And>d. g (f d) = g d"
  shows "map (\<lambda>(i, d). (i, g d)) (updateDoc userId f db) = map (\<lambda>(i, d). (i, g d)) db"
  using assms by (induction db) (auto simp: updateDoc_def)

lemma telemetryWebhook_frame:
  assumes "\<And>d. g (updateVehicle (vehicleUpdateOf data) d) = g d"
  shows "map (\<lambda>(i, d). (i, g d))
           (snd (telemetryWebhook db \<lparr>body_vin = v, body_data = Some data\<rparr>)) =
         map (\<lambda>(i, d). (i, g d)) db"
  using updateDoc_frame[of g "updateVehicle (vehicleUpdateOf data)", OF assms]
  by (auto simp: telemetryWebhook_def split: option.splits)

lemma updateVehicle_isCharging:
  "upd_isCharging u = None \<Longrightarrow>
   map_option isCharging (vehicle (updateVehicle u d)) = map_option isCharging (vehicle d)"
  by (cases "vehicle d") (simp_all add: updateVehicle_def)

lemma updateVehicle_isPluggedIn:
  "upd_isPluggedIn u = None \<Longrightarrow>
   map_option isPluggedIn (vehicle (updateVehicle u d)) = map_option isPluggedIn (vehicle d)"
  by (cases "vehicle d") (simp_all add: updateVehicle_def)

lemma updateVehicle_batteryLevel:
  "upd_batteryLevel u = None \<Longrightarrow>
   map_option batteryLevel (vehicle (updateVehicle u d)) = map_option batteryLevel (vehicle d)"
  by (cases "vehicle d") (simp_all add: updateVehicle_def)

lemma updateVehicle_rest:
  "(map_option vin (vehicle (updateVehicle u d)), settings (updateVehicle u d),
    teslaRefreshToken (updateVehicle u d), chargeOverride (updateVehicle u d)) =
   (map_option vin (vehicle d), settings d, teslaRefreshToken d, chargeOverride d)"
  by (cases "vehicle d") (simp_all add: updateVehicle_def)

text \<open>
  Claim C8. A field that the telemetry payload does not have leaves the stored field of
  every user as it was: without \<open>charging_state\<close> no \<open>isCharging\<close> changes, without
  \<open>charge_port_latch\<close> no \<open>isPluggedIn\<close> changes, without \<open>battery_level\<close> no \<open>batteryLevel\<close>
  changes. So an update with only \<open>battery_level\<close> leaves \<open>isCharging\<close> and \<open>isPluggedIn\<close>
  unchanged. The VIN, the settings, the refresh token and the override flag are never
  changed by the webhook.
\<close>

theorem absent_fields_unchanged:
  "(charging_state data = None \<longrightarrow>
      map (\<lambda>(userId, userData). (userId, map_option isCharging (vehicle userData)))
        (snd (telemetryWebhook db \<lparr>body_vin = v, body_data = Some data\<rparr>)) =
      map (\<lambda>(userId, userData). (userId, map_option isCharging (vehicle userData))) db) \<and>
   (charge_port_latch data = None \<longrightarrow>
      map (\<lambda>(userId, userData). (userId, map_option isPluggedIn (vehicle userData)))
        (snd (telemetryWebhook db \<lparr>body_vin = v, body_data = Some data\<rparr>)) =
      map (\<lambda>(userId, userData). (userId, map_option isPluggedIn (vehicle userData))) db) \<and>
   (battery_level data = None \<longrightarrow>
      map (\<lambda>(userId, userData). (userId, map_option batteryLevel (vehicle userData)))
        (snd (telemetryWebhook db \<lparr>body_vin = v, body_data = Some data\<rparr>)) =
      map (\<lambda>(userId, userData). (userId, map_option batteryLevel (vehicle userData))) db) \<and>
   map (\<lambda>(userId, userData). (userId, map_option vin (vehicle userData), settings userData,
          teslaRefreshToken userData, chargeOverride userData))
     (snd (telemetryWebhook db \<lparr>body_vin = v, body_data = Some data\<rparr>)) =
   map (\<lambda>(userId, userData). (userId, map_option vin (vehicle userData), settings userData,
          teslaRefreshToken userData, chargeOverride userData)) db"
proof -
  let ?u = "vehicleUpdateOf data"
  have c: "map_option isCharging (vehicle (updateVehicle ?u d)) =
      map_option isCharging (vehicle d)" if "charging_state data = None" for d
    using that by (intro updateVehicle_isCharging) (simp add: vehicleUpdateOf_def)
  have p: "map_option isPluggedIn (vehicle (updateVehicle ?u d)) =
      map_option isPluggedIn (vehicle d)" if "charge_port_latch data = None" for d
    using that by (intro updateVehicle_isPluggedIn) (simp add: vehicleUpdateOf_def)
  have b: "map_option batteryLevel (vehicle (updateVehicle ?u d)) =
      map_option batteryLevel (vehicle d)" if "battery_level data = None" for d
    using that by (intro updateVehicle_batteryLevel) (simp add: vehicleUpdateOf_def)
  show ?thesis
    using telemetryWebhook_frame[of "\<lambda>d. map_option isCharging (vehicle d)", OF c]
      telemetryWebhook_frame[of "\<lambda>d. map_option isPluggedIn (vehicle d)", OF p]
      telemetryWebhook_frame[of "\<lambda>d. map_option batteryLevel (vehicle d)", OF b]
      telemetryWebhook_frame[of "\<lambda>d. (map_option vin (vehicle d), settings d,
        teslaRefreshToken d, chargeOverride d)", OF updateVehicle_rest]
    by simp
qed

theorem absent_fields_unchanged_witness:
  "map (\<lambda>(userId, userData). (userId, map_option isCharging (vehicle userData),
          map_option isPluggedIn (vehicle userData), map_option batteryLevel (vehicle userData)))
     (snd (telemetryWebhook exampleTelemetryUsers
        \<lparr>body_vin = Some ''5YJ3E1EA7KF000001'',
         body_data = Some \<lparr>charging_state = None, charge_port_latch = None,
                            battery_level = Some 61\<rparr>\<rparr>)) =
   [(''u1'', Some False, Some True, Some 61)] \<and>
   map (\<lambda>(userId, userData). (userId, map_option isCharging (vehicle userData),
          map_option isPluggedIn (vehicle userData), map_option batteryLevel (vehicle userData)))
     exampleTelemetryUsers =
   [(''u1'', Some False, Some True, Some 50)]"
proof -
  let ?req = "\<lparr>body_vin = Some ''5YJ3E1EA7KF000001'',
         body_data = Some \<lparr>charging_state = None, charge_port_latch = None,
                            battery_level = Some 61\<rparr>\<rparr>"
  have before: "map (\<lambda>(userId, userData). (userId, map_option isCharging (vehicle userData),
          map_option isPluggedIn (vehicle userData), map_option batteryLevel (vehicle userData)))
     exampleTelemetryUsers = [(''u1'', Some False, Some True, Some 50)]"
    by (simp add: exampleTelemetryUsers_def pluggedDoc_def)
  have bat: "map (\<lambda>(userId, userData). (userId, map_option batteryLevel (vehicle userData)))
      (snd (telemetryWebhook exampleTelemetryUsers ?req)) = [(''u1'', Some 61)]"
    by (simp add: telemetryWebhook_def exampleTelemetryUsers_def pluggedDoc_def
        vehicleUpdateOf_def hasKeys_def updateDoc_def updateVehicle_def)
  obtain i d where res: "snd (telemetryWebhook exampleTelemetryUsers ?req) = [(i, d)]"
    using bat by (cases "snd (telemetryWebhook exampleTelemetryUsers ?req)") auto
  from absent_fields_unchanged[of "\<lparr>charging_state = None, charge_port_latch = None,
      battery_level = Some 61\<rparr>" exampleTelemetryUsers "Some ''5YJ3E1EA7KF000001''"]
    before bat
  show ?thesis
    unfolding res by (simp add: exampleTelemetryUsers_def pluggedDoc_def)
qed

lemma telemetryWebhook_cong:
  "vehicleUpdateOf d1 = vehicleUpdateOf d2 \<Longrightarrow>
   telemetryWebhook db \<lparr>body_vin = v, body_data = Some d1\<rparr> =
   telemetryWebhook db \<lparr>body_vin = v, body_data = Some d2\<rparr>"
  by (simp add: telemetryWebhook_def split: option.splits)

lemma falsy_update:
  "vehicleUpdateOf (data\<lparr>battery_level := Some 0\<rparr>) =
   vehicleUpdateOf (data\<lparr>battery_level := None\<rparr>)"
  "vehicleUpdateOf (data\<lparr>charging_state := Some []\<rparr>) =
   vehicleUpdateOf (data\<lparr>charging_state := None\<rparr>)"
  "vehicleUpdateOf (data\<lparr>charge_port_latch := Some []\<rparr>) =
   vehicleUpdateOf (data\<lparr>charge_port_latch := None\<rparr>)"
  by (simp_all add: vehicleUpdateOf_def)

text \<open>
  Claim C9. A field that is present with a falsy value is treated as an absent one: the
  webhook answers the same and leaves the same users collection for \<open>battery_level\<close> 0 as
  for no \<open>battery_level\<close>, and for an empty \<open>charging_state\<close> or \<open>charge_port_latch\<close> as for
  none; the stored \<open>batteryLevel\<close>, \<open>isCharging\<close> or \<open>isPluggedIn\<close> of every user is
  then what it was.
\<close>

theorem falsy_field_is_absent:
  "telemetryWebhook db \<lparr>body_vin = v, body_data = Some (data\<lparr>battery_level := Some 0\<rparr>)\<rparr> =
   telemetryWebhook db \<lparr>body_vin = v, body_data = Some (data\<lparr>battery_level := None\<rparr>)\<rparr> \<and>
   telemetryWebhook db \<lparr>body_vin = v, body_data = Some (data\<lparr>charging_state := Some []\<rparr>)\<rparr> =
   telemetryWebhook db \<lparr>body_vin = v, body_data = Some (data\<lparr>charging_state := None\<rparr>)\<rparr> \<and>
   telemetryWebhook db \<lparr>body_vin = v, body_data = Some (data\<lparr>charge_port_latch := Some []\<rparr>)\<rparr> =
   telemetryWebhook db \<lparr>body_vin = v, body_data = Some (data\<lparr>charge_port_latch := None\<rparr>)\<rparr> \<and>
   map (\<lambda>(userId, userData). (userId, map_option batteryLevel (vehicle userData)))
     (snd (telemetryWebhook db
        \<lparr>body_vin = v, body_data = Some (data\<lparr>battery_level := Some 0\<rparr>)\<rparr>)) =
   map (\<lambda>(userId, userData). (userId, map_option batteryLevel (vehicle userData))) db \<and>
   map (\<lambda>(userId, userData). (userId, map_option isCharging (vehicle userData)))
     (snd (telemetryWebhook db
        \<lparr>body_vin = v, body_data = Some (data\<lparr>charging_state := Some []\<rparr>)\<rparr>)) =
   map (\<lambda>(userId, userData). (userId, map_option isCharging (vehicle userData))) db \<and>
   map (\<lambda>(userId, userData). (userId, map_option isPluggedIn (vehicle userData)))
     (snd (telemetryWebhook db
        \<lparr>body_vin = v, body_data = Some (data\<lparr>charge_port_latch := Some []\<rparr>)\<rparr>)) =
   map (\<lambda>(userId, userData). (userId, map_option isPluggedIn (vehicle userData))) db"
proof -
  have b: "map_option batteryLevel
      (vehicle (updateVehicle (vehicleUpdateOf (data\<lparr>battery_level := Some 0\<rparr>)) d)) =
      map_option batteryLevel (vehicle d)" for d
    by (intro updateVehicle_batteryLevel) (simp add: vehicleUpdateOf_def)
  have c: "map_option isCharging
      (vehicle (updateVehicle (vehicleUpdateOf (data\<lparr>charging_state := Some []\<rparr>)) d)) =
      map_option isCharging (vehicle d)" for d
    by (intro updateVehicle_isCharging) (simp add: vehicleUpdateOf_def)
  have p: "map_option isPluggedIn
      (vehicle (updateVehicle (vehicleUpdateOf (data\<lparr>charge_port_latch := Some []\<rparr>)) d)) =
      map_option isPluggedIn (vehicle d)" for d
    by (intro updateVehicle_isPluggedIn) (simp add: vehicleUpdateOf_def)
  show ?thesis
    using telemetryWebhook_frame[of "\<lambda>d. map_option batteryLevel (vehicle d)", OF b]
      telemetryWebhook_frame[of "\<lambda>d. map_option isCharging (vehicle d)", OF c]
      telemetryWebhook_frame[of "\<lambda>d. map_option isPluggedIn (vehicle d)", OF p]
    by (simp add: telemetryWebhook_cong[OF falsy_update(1)]
        telemetryWebhook_cong[OF falsy_update(2)] telemetryWebhook_cong[OF falsy_update(3)])
qed

section \<open>The charging decision\<close>

lemma decisionLogic_defined:
  "decisionLogic b \<lparr>chargingDuration = Some d, emergencyThreshold = Some e,
                     targetBattery = Some t, optimalStartHour = Some h\<rparr> p hr =
     (if b < e then (START, EmergencyCharging)
      else if p < 0 then (START, BonusCharging)
      else if h \<le> hr \<and> hr < h + int d \<and> b < t then (START, OptimalWindow)
      else (STOP, OutsideOptimalWindow))"
  by (simp add: decisionLogic_def)

lemma manage_plugged:
  assumes "\<not> overrideRequested beforeData afterData"
    and "plugInTransition beforeData afterData"
    and "vehicle afterData = Some v"
  shows "manageChargingLogic tok priceDoc hr beforeData afterData =
         \<lparr>trace = pluggedInLogic tok priceDoc hr afterData v, stored = afterData\<rparr>"
  using assms
  by (auto simp: manageChargingLogic_def plugInTransition_def split: option.splits)

lemma manage_override:
  assumes "overrideRequested beforeData afterData" and "vehicle afterData = Some v"
  shows "manageChargingLogic tok priceDoc hr beforeData afterData =
         \<lparr>trace = ManualOverrideDetected #
                   sendTeslaChargeCommand tok (teslaRefreshToken afterData) (vin v) START @
                   [OverrideSuccessful],
          stored = afterData\<lparr>chargeOverride := Some False\<rparr>\<rparr>"
  using assms by (simp add: manageChargingLogic_def)

lemma sendTeslaChargeCommand_START:
  "sendTeslaChargeCommand tok rt v START =
     [case tok rt of Some accessToken \<Rightarrow> SendingCommand ''charge_start'' v
                   | None \<Rightarrow> FailedToSend v]"
  by (simp add: sendTeslaChargeCommand_def split: option.splits)

lemma pluggedInLogic_starts:
  "\<exists>rest. pluggedInLogic tok priceDoc hr afterData v = CarPluggedIn # rest"
  by (simp add: pluggedInLogic_def split: option.splits prod.splits)

text \<open>
  Claim C2. For an update that is not an override and plugs the car in, with settings and a
  price for the current hour, the function logs the plug-in and one decision and hands that
  decision to \<^verbatim>\<open>sendTeslaChargeCommand\<close>. The decision is START when the battery level is
  below the emergency threshold; otherwise START when the price is negative; otherwise
  START when the current hour is in the optimal window and the battery level is below the
  target; otherwise STOP. It is a function of these values alone. The first example of the
  claim gives START and the second STOP, with the emergency threshold 20 of the first
  example and also with no emergency threshold.
\<close>

theorem decision_policy_priority_order:
  assumes "\<not> overrideRequested beforeData afterData"
    and "plugInTransition beforeData afterData"
    and "vehicle afterData = Some v"
    and "settings afterData = Some \<lparr>chargingDuration = Some d, emergencyThreshold = Some e,
                                     targetBattery = Some t, optimalStartHour = Some h\<rparr>"
    and "priceDoc = Some prices" and "prices currentHour = Some r"
  shows "(\<exists>decision why.
            decision =
              (if batteryLevel v < e then START
               else if price r < 0 then START
               else if h \<le> currentHour \<and> currentHour < h + int d \<and> batteryLevel v < t
               then START
               else STOP) \<and>
            decisionLogic (batteryLevel v)
              \<lparr>chargingDuration = Some d, emergencyThreshold = Some e,
               targetBattery = Some t, optimalStartHour = Some h\<rparr> (price r) currentHour =
              (decision, why) \<and>
            trace (manageChargingLogic tok priceDoc currentHour beforeData afterData) =
              [CarPluggedIn, Decision decision why] @
              sendTeslaChargeCommand tok (teslaRefreshToken afterData) (vin v) decision) \<and>
         fst (decisionLogic 15 \<lparr>chargingDuration = Some 4, emergencyThreshold = Some 20,
                targetBattery = Some 80, optimalStartHour = Some 2\<rparr> (3 / 10) 10) = START \<and>
         fst (decisionLogic 50 \<lparr>chargingDuration = Some 3, emergencyThreshold = Some 20,
                targetBattery = Some 80, optimalStartHour = Some 1\<rparr> (1 / 4) 5) = STOP \<and>
         fst (decisionLogic 50 \<lparr>chargingDuration = Some 3, emergencyThreshold = None,
                targetBattery = Some 80, optimalStartHour = Some 1\<rparr> (1 / 4) 5) = STOP"
proof -
  have ex: "fst (decisionLogic 15 \<lparr>chargingDuration = Some 4, emergencyThreshold = Some 20,
                  targetBattery = Some 80, optimalStartHour = Some 2\<rparr> (3 / 10) 10) = START"
     "fst (decisionLogic 50 \<lparr>chargingDuration = Some 3, emergencyThreshold = Some 20,
                  targetBattery = Some 80, optimalStartHour = Some 1\<rparr> (1 / 4) 5) = STOP"
     "fst (decisionLogic 50 \<lparr>chargingDuration = Some 3, emergencyThreshold = None,
                  targetBattery = Some 80, optimalStartHour = Some 1\<rparr> (1 / 4) 5) = STOP"
    by (simp_all add: decisionLogic_def)
  show ?thesis
    unfolding manage_plugged[OF assms(1-3)]
    using assms(4-6) ex
    by (simp add: pluggedInLogic_def decisionLogic_defined)
qed

theorem decision_policy_priority_order_witness:
  "\<not> overrideRequested unpluggedDoc pluggedDoc \<and> plugInTransition unpluggedDoc pluggedDoc \<and>
   flatPrices 5 = Some \<lparr>price = 1 / 4, time = 5\<rparr> \<and>
   trace (manageChargingLogic exchangeSucceeds (Some flatPrices) 5 unpluggedDoc pluggedDoc) =
     [CarPluggedIn, Decision STOP OutsideOptimalWindow,
      SendingCommand ''charge_stop'' ''5YJ3E1EA7KF000001'']"
proof -
  have a: "\<not> overrideRequested unpluggedDoc pluggedDoc"
    by (simp add: overrideRequested_def unpluggedDoc_def pluggedDoc_def)
  have b: "plugInTransition unpluggedDoc pluggedDoc"
    by (simp add: plugInTransition_def unpluggedDoc_def pluggedDoc_def)
  have c: "vehicle pluggedDoc = Some \<lparr>vin = ''5YJ3E1EA7KF000001'', isCharging = False,
                                     isPluggedIn = True, batteryLevel = 50\<rparr>"
    by (simp add: pluggedDoc_def)
  have d: "settings pluggedDoc = Some \<lparr>chargingDuration = Some 3, emergencyThreshold = Some 20,
                        targetBattery = Some 80, optimalStartHour = Some 1\<rparr>"
    by (simp add: pluggedDoc_def unpluggedDoc_def)
  have e: "flatPrices 5 = Some \<lparr>price = 1 / 4, time = 5\<rparr>"
    by (simp add: flatPrices_def)
  from decision_policy_priority_order[where priceDoc = "Some flatPrices"
      and tok = exchangeSucceeds, OF a b c d refl e]
  obtain decision why where
    t: "trace (manageChargingLogic exchangeSucceeds (Some flatPrices) 5 unpluggedDoc pluggedDoc) =
          [CarPluggedIn, Decision decision why] @
          sendTeslaChargeCommand exchangeSucceeds (teslaRefreshToken pluggedDoc)
            ''5YJ3E1EA7KF000001'' decision"
    and dec: "decision = STOP"
    and dl: "decisionLogic 50 \<lparr>chargingDuration = Some 3, emergencyThreshold = Some 20,
               targetBattery = Some 80, optimalStartHour = Some 1\<rparr> (1 / 4) 5 = (decision, why)"
    by auto
  from dl have why: "why = OutsideOptimalWindow"
    by (simp add: decisionLogic_def)
  from a b e t show ?thesis
    unfolding dec why by (simp add: sendTeslaChargeCommand_def exchangeSucceeds_def)
qed

text \<open>
  Claim C3. When the override flag was just set, the function hands START to
  \<^verbatim>\<open>sendTeslaChargeCommand\<close> for the user's vehicle, whatever the battery level, the
  settings, the prices and the hour are: its log is the override line, the one line of the
  command (\<^verbatim>\<open>charge_start\<close> when the token exchange succeeds) and the line after the flag
  was reset; no decision of the emergency, bonus or window rules is in it.
\<close>

theorem override_decides_start:
  assumes "overrideRequested beforeData afterData" and "vehicle afterData = Some v"
  shows "trace (manageChargingLogic tok priceDoc currentHour beforeData afterData) =
           ManualOverrideDetected #
           sendTeslaChargeCommand tok (teslaRefreshToken afterData) (vin v) START @
           [OverrideSuccessful] \<and>
         sendTeslaChargeCommand tok (teslaRefreshToken afterData) (vin v) START =
           [case tok (teslaRefreshToken afterData) of
              Some accessToken \<Rightarrow> SendingCommand ''charge_start'' (vin v)
            | None \<Rightarrow> FailedToSend (vin v)]"
  using manage_override[OF assms] by (simp add: sendTeslaChargeCommand_START)

theorem override_decides_start_witness:
  "overrideRequested unpluggedDoc fullBatteryOverrideDoc \<and>
   map_option batteryLevel (vehicle fullBatteryOverrideDoc) = Some 100 \<and>
   trace (manageChargingLogic exchangeSucceeds (Some flatPrices) 10 unpluggedDoc
            fullBatteryOverrideDoc) =
     [ManualOverrideDetected, SendingCommand ''charge_start'' ''5YJ3E1EA7KF000001'',
      OverrideSuccessful]"
proof -
  have a: "overrideRequested unpluggedDoc fullBatteryOverrideDoc"
    by (simp add: overrideRequested_def unpluggedDoc_def fullBatteryOverrideDoc_def)
  have b: "vehicle fullBatteryOverrideDoc =
      Some \<lparr>vin = ''5YJ3E1EA7KF000001'', isCharging = False, isPluggedIn = True,
             batteryLevel = 100\<rparr>"
    by (simp add: fullBatteryOverrideDoc_def)
  from override_decides_start[OF a b, of exchangeSucceeds "Some flatPrices" 10] a b
  show ?thesis by (simp add: exchangeSucceeds_def)
qed

text \<open>
  Claim C4. After a run that found the override flag just set, the flag in the user's
  document is false, whatever the token exchange did and whether or not the document has a
  vehicle; and the update that resets the flag is not an override itself, so the override
  does not run a second time.
\<close>

theorem override_flag_cleared:
  assumes "overrideRequested beforeData afterData"
  shows "chargeOverride (stored (manageChargingLogic tok priceDoc currentHour beforeData afterData))
           = Some False \<and>
         \<not> overrideRequested afterData
             (stored (manageChargingLogic tok priceDoc currentHour beforeData afterData))"
  using assms
  by (simp add: manageChargingLogic_def overrideRequested_def split: option.splits)

theorem override_flag_cleared_witness:
  "overrideRequested unpluggedDoc fullBatteryOverrideDoc \<and>
   chargeOverride (stored (manageChargingLogic exchangeSucceeds (Some flatPrices) 10
      unpluggedDoc fullBatteryOverrideDoc)) = Some False \<and>
   trace (manageChargingLogic exchangeFails (Some flatPrices) 10
      unpluggedDoc fullBatteryOverrideDoc) =
     [ManualOverrideDetected, FailedToSend ''5YJ3E1EA7KF000001'', OverrideSuccessful] \<and>
   chargeOverride (stored (manageChargingLogic exchangeFails (Some flatPrices) 10
      unpluggedDoc fullBatteryOverrideDoc)) = Some False \<and>
   chargeOverride (stored (manageChargingLogic exchangeFails (Some flatPrices) 10
      unpluggedDoc (fullBatteryOverrideDoc\<lparr>vehicle := None\<rparr>))) = Some False"
proof -
  have a: "overrideRequested unpluggedDoc fullBatteryOverrideDoc"
    by (simp add: overrideRequested_def unpluggedDoc_def fullBatteryOverrideDoc_def)
  have a': "overrideRequested unpluggedDoc (fullBatteryOverrideDoc\<lparr>vehicle := None\<rparr>)"
    by (simp add: overrideRequested_def unpluggedDoc_def fullBatteryOverrideDoc_def)
  have t: "trace (manageChargingLogic exchangeFails (Some flatPrices) 10
      unpluggedDoc fullBatteryOverrideDoc) =
     [ManualOverrideDetected, FailedToSend ''5YJ3E1EA7KF000001'', OverrideSuccessful]"
    using a by (simp add: manageChargingLogic_def fullBatteryOverrideDoc_def
        sendTeslaChargeCommand_def exchangeFails_def)
  from override_flag_cleared[OF a, of exchangeSucceeds "Some flatPrices" 10]
    override_flag_cleared[OF a, of exchangeFails "Some flatPrices" 10]
    override_flag_cleared[OF a', of exchangeFails "Some flatPrices" 10] a t
  show ?thesis by simp
qed

section \<open>Plug-in detection and the override\<close>

lemma notification_iff:
  "CarPluggedIn \<in> set (trace (manageChargingLogic tok priceDoc hr beforeData afterData)) \<longleftrightarrow>
     \<not> overrideRequested beforeData afterData \<and> plugInTransition beforeData afterData"
proof (cases "overrideRequested beforeData afterData")
  case True
  then show ?thesis
    by (auto simp: manageChargingLogic_def sendTeslaChargeCommand_def split: option.splits)
next
  case False
  show ?thesis
  proof (cases "plugInTransition beforeData afterData")
    case True
    then obtain v where v: "vehicle afterData = Some v"
      by (auto simp: plugInTransition_def)
    from pluggedInLogic_starts[of tok priceDoc hr afterData v] show ?thesis
      using False True by (auto simp: manage_plugged[OF False True v])
  next
    case np: False
    then show ?thesis using False
      by (auto simp: manageChargingLogic_def plugInTransition_def split: option.splits)
  qed
qed

lemma updateVehicle_not_override: "\<not> overrideRequested d (updateVehicle u d)"
  by (simp add: overrideRequested_def updateVehicle_def)

text \<open>
  Claim C6, as stated, fails: an update that plugs the car in and sets the override flag
  at once is a change of \<open>isPluggedIn\<close> from false to true, and the run does not log the
  plug-in.
\<close>

theorem plug_in_notification_counterexample:
  "plugInTransition unpluggedDoc fullBatteryOverrideDoc \<and>
   CarPluggedIn \<notin> set (trace (manageChargingLogic exchangeSucceeds (Some flatPrices) 10
      unpluggedDoc fullBatteryOverrideDoc))"
  by (simp add: plugInTransition_def manageChargingLogic_def overrideRequested_def
      unpluggedDoc_def fullBatteryOverrideDoc_def sendTeslaChargeCommand_def exchangeSucceeds_def)

text \<open>
  Claim C6, amended. The plug-in is logged (and the charging logic run) exactly when the
  update changes \<open>isPluggedIn\<close> from false to true and does not set the override flag in the
  same update. An update written by the telemetry webhook never sets the flag, so for such
  an update the plug-in is logged exactly when \<open>isPluggedIn\<close> changes from false to true.
  Over three snapshots with \<open>isPluggedIn\<close> true, false, true and no override set, there is
  one notification, at the second update.
\<close>

theorem plug_in_notification_unless_override:
  "(CarPluggedIn \<in> set (trace (manageChargingLogic tok priceDoc hr beforeData afterData)) \<longleftrightarrow>
      \<not> overrideRequested beforeData afterData \<and> plugInTransition beforeData afterData) \<and>
   (CarPluggedIn \<in> set (trace (manageChargingLogic tok priceDoc hr beforeData
                                  (updateVehicle u beforeData))) \<longleftrightarrow>
      plugInTransition beforeData (updateVehicle u beforeData)) \<and>
   (map_option isPluggedIn (vehicle s0) = Some True \<and>
    map_option isPluggedIn (vehicle s1) = Some False \<and>
    map_option isPluggedIn (vehicle s2) = Some True \<and>
    \<not> overrideRequested s0 s1 \<and> \<not> overrideRequested s1 s2 \<longrightarrow>
    plugInNotifications tok priceDoc hr [s0, s1, s2] = [False, True])"
  by (auto simp: notification_iff updateVehicle_not_override plugInNotifications_def
      plugInTransition_def)

theorem plug_in_notification_unless_override_witness:
  "\<not> overrideRequested pluggedDoc unpluggedDoc \<and> \<not> overrideRequested unpluggedDoc pluggedDoc \<and>
   plugInTransition unpluggedDoc pluggedDoc \<and>
   CarPluggedIn \<in> set (trace (manageChargingLogic exchangeSucceeds (Some flatPrices) 5
      unpluggedDoc pluggedDoc)) \<and>
   plugInNotifications exchangeSucceeds (Some flatPrices) 5 [pluggedDoc, unpluggedDoc, pluggedDoc]
     = [False, True]"
proof -
  have a: "\<not> overrideRequested pluggedDoc unpluggedDoc"
    "\<not> overrideRequested unpluggedDoc pluggedDoc"
    by (simp_all add: overrideRequested_def unpluggedDoc_def pluggedDoc_def)
  have b: "plugInTransition unpluggedDoc pluggedDoc"
    by (simp add: plugInTransition_def unpluggedDoc_def pluggedDoc_def)
  have c: "map_option isPluggedIn (vehicle pluggedDoc) = Some True"
     "map_option isPluggedIn (vehicle unpluggedDoc) = Some False"
    by (simp_all add: unpluggedDoc_def pluggedDoc_def)
  from plug_in_notification_unless_override[of exchangeSucceeds "Some flatPrices" 5
      unpluggedDoc pluggedDoc _ pluggedDoc unpluggedDoc pluggedDoc] a b c
  show ?thesis by simp
qed

text \<open>
  Claim C10. For an update that sets the override flag and plugs the car in at once, the
  run is the override branch alone: the log has the override line, one line for the one
  START command (\<^verbatim>\<open>charge_start\<close>, or the failure of its token exchange) and the line after
  the reset; the flag is stored as false; the plug-in is not logged and no decision of the
  charging logic is made.
\<close>

theorem override_before_plug_in:
  assumes "overrideRequested beforeData afterData" and "plugInTransition beforeData afterData"
  shows "\<exists>v. vehicle afterData = Some v \<and>
           manageChargingLogic tok priceDoc currentHour beforeData afterData =
             \<lparr>trace = [ManualOverrideDetected,
                       (case tok (teslaRefreshToken afterData) of
                          Some accessToken \<Rightarrow> SendingCommand ''charge_start'' (vin v)
                        | None \<Rightarrow> FailedToSend (vin v)),
                       OverrideSuccessful],
              stored = afterData\<lparr>chargeOverride := Some False\<rparr>\<rparr> \<and>
           CarPluggedIn \<notin> set (trace (manageChargingLogic tok priceDoc currentHour
                                         beforeData afterData)) \<and>
           (\<forall>decision why. Decision decision why \<notin>
              set (trace (manageChargingLogic tok priceDoc currentHour beforeData afterData)))"
proof -
  from assms(2) obtain v where v: "vehicle afterData = Some v"
    by (auto simp: plugInTransition_def)
  show ?thesis
    using v by (auto simp: manage_override[OF assms(1) v] sendTeslaChargeCommand_START
        split: option.splits)
qed

theorem override_before_plug_in_witness:
  "overrideRequested unpluggedDoc fullBatteryOverrideDoc \<and>
   plugInTransition unpluggedDoc fullBatteryOverrideDoc \<and>
   manageChargingLogic exchangeSucceeds (Some flatPrices) 2 unpluggedDoc fullBatteryOverrideDoc =
     \<lparr>trace = [ManualOverrideDetected, SendingCommand ''charge_start'' ''5YJ3E1EA7KF000001'',
               OverrideSuccessful],
      stored = fullBatteryOverrideDoc\<lparr>chargeOverride := Some False\<rparr>\<rparr>"
proof -
  have a: "overrideRequested unpluggedDoc fullBatteryOverrideDoc"
    by (simp add: overrideRequested_def unpluggedDoc_def fullBatteryOverrideDoc_def)
  have b: "plugInTransition unpluggedDoc fullBatteryOverrideDoc"
    by (simp add: plugInTransition_def unpluggedDoc_def fullBatteryOverrideDoc_def)
  have c: "vehicle fullBatteryOverrideDoc =
      Some \<lparr>vin = ''5YJ3E1EA7KF000001'', isCharging = False, isPluggedIn = True,
             batteryLevel = 100\<rparr>"
    by (simp add: fullBatteryOverrideDoc_def)
  from override_before_plug_in[OF a b, of exchangeSucceeds "Some flatPrices" 2] a b c
  show ?thesis by (auto simp: exchangeSucceeds_def)
qed

section \<open>When the price feed is rejected\<close>

lemma hourOf_exact: "\<bar>n\<bar> \<le> 2 ^ 52 \<Longrightarrow> hourOf n = Finite (of_int (n - 1))"
proof -
  assume a: "\<bar>n\<bar> \<le> 2 ^ 52"
  then have "\<bar>n\<bar> < 2 ^ 53" "\<bar>n - 1\<bar> < 2 ^ 53" by simp_all
  then show ?thesis
    using roundDouble_of_int[of n] roundDouble_of_int[of "n - 1"]
    by (simp add: hourOf_def)
qed

lemma abs_of_int_le_numeral:
  "\<bar>of_int v :: rat\<bar> \<le> numeral k \<longleftrightarrow> \<bar>v\<bar> \<le> numeral k"
  by (simp flip: of_int_abs)

lemma setHours_exact:
  assumes "validTime t" and "\<bar>n\<bar> \<le> 2 ^ 31"
  shows "setHours t (hourOf n) =
     (if validTime (t + (n - 1) * 3600000) then Some (t + (n - 1) * 3600000) else None)"
proof -
  define h0 where "h0 = t div 3600000 mod 24"
  define m where "m = t div 60000 mod 60"
  define s where "s = t div 1000 mod 60"
  define ms where "ms = t mod 1000"
  define day where "day = t div 86400000"
  let ?V = "t + (n - 1) * 3600000"
  have t: "\<bar>t\<bar> \<le> 8640000000000000" using assms(1) by (simp add: validTime_def)
  have n: "\<bar>n\<bar> \<le> 2147483648" using assms(2) by simp
  have bh: "0 \<le> h0" "h0 < 24" and bm: "0 \<le> m" "m < 60"
    and bs: "0 \<le> s" "s < 60" and bms: "0 \<le> ms" "ms < 1000"
    by (simp_all add: h0_def m_def s_def ms_def)
  have hour: "hourOf n = Finite (of_int (n - 1))"
    using n by (intro hourOf_exact) simp
  have h: "plusDouble (Finite (of_int h0)) (Finite (of_int (n - 1))) =
      Finite (of_int (h0 + (n - 1)))"
    using bh n by (intro plusDouble_exact) simp
  have hm: "timesDouble (Finite (of_int (h0 + (n - 1)))) 3600000 =
      Finite (of_int ((h0 + (n - 1)) * 3600000))"
    using timesDouble_exact[of "h0 + (n - 1)" 3600000] bh n by simp
  have a1: "plusDouble (Finite (of_int ((h0 + (n - 1)) * 3600000))) (Finite (of_int (m * 60000)))
      = Finite (of_int ((h0 + (n - 1)) * 3600000 + m * 60000))"
    using bh bm n by (intro plusDouble_exact) simp
  have a2: "plusDouble (Finite (of_int ((h0 + (n - 1)) * 3600000 + m * 60000)))
        (Finite (of_int (s * 1000)))
      = Finite (of_int ((h0 + (n - 1)) * 3600000 + m * 60000 + s * 1000))"
    using bh bm bs n by (intro plusDouble_exact) simp
  have a3: "plusDouble (Finite (of_int ((h0 + (n - 1)) * 3600000 + m * 60000 + s * 1000)))
        (Finite (of_int ms))
      = Finite (of_int ((h0 + (n - 1)) * 3600000 + m * 60000 + s * 1000 + ms))"
    using bh bm bs bms n by (intro plusDouble_exact) simp
  have split: "t = day * 86400000 + h0 * 3600000 + m * 60000 + s * 1000 + ms"
  proof -
    have "t = t div 1000 * 1000 + ms" by (simp add: ms_def)
    moreover have "t div 1000 = t div 1000 div 60 * 60 + s" by (simp add: s_def)
    moreover have "t div 1000 div 60 = t div 60000" by (simp add: div_mult2_eq[symmetric])
    moreover have "t div 60000 = t div 60000 div 60 * 60 + m" by (simp add: m_def)
    moreover have "t div 60000 div 60 = t div 3600000" by (simp add: div_mult2_eq[symmetric])
    moreover have "t div 3600000 = t div 3600000 div 24 * 24 + h0" by (simp add: h0_def)
    moreover have "t div 3600000 div 24 = day"
      by (simp add: day_def div_mult2_eq[symmetric])
    ultimately show ?thesis by linarith
  qed
  have sum: "day * 86400000 + ((h0 + (n - 1)) * 3600000 + m * 60000 + s * 1000 + ms) = ?V"
    using split by (simp add: algebra_simps)
  have tv: "plusDouble (Finite (of_int (day * 86400000)))
      (Finite (of_int ((h0 + (n - 1)) * 3600000 + m * 60000 + s * 1000 + ms))) =
      roundDouble (of_int ?V)"
    unfolding sum[symmetric] by simp
  have V54: "\<bar>?V\<bar> < 2 ^ 54" using t n by simp
  have unfold: "setHours t (hourOf n) =
      (case roundDouble (of_int ?V) of
         Finite v \<Rightarrow> if \<bar>v\<bar> \<le> 8640000000000000 then Some \<lfloor>v\<rfloor> else None
       | _ \<Rightarrow> None)"
    unfolding setHours_def hour
    unfolding h0_def[symmetric] m_def[symmetric] s_def[symmetric] ms_def[symmetric]
      day_def[symmetric]
    unfolding h hm a1 a2 a3 tv ..
  show ?thesis
  proof (cases "\<bar>?V\<bar> < 2 ^ 53")
    case True
    from roundDouble_of_int[OF this]
    have r: "roundDouble (of_int ?V) = Finite (of_int ?V)" .
    show ?thesis
      unfolding unfold r
      by (simp only: double.case abs_of_int_le_numeral floor_of_int validTime_def)
  next
    case False
    then have "2 ^ 53 \<le> \<bar>?V\<bar>" by simp
    from roundDouble_large[OF this V54] obtain r
      where r: "roundDouble (of_int ?V) = Finite r" and big: "2 ^ 53 \<le> \<bar>r\<bar>" by blast
    have "\<not> validTime ?V" using False by (simp add: validTime_def)
    moreover have "\<not> \<bar>r\<bar> \<le> 8640000000000000" using big by simp
    ultimately show ?thesis
      unfolding unfold r by simp
  qed
qed

lemma setHours_not_finite:
  "setHours t PosInf = None" "setHours t NegInf = None" "setHours t NaN = None"
  by (simp_all add: setHours_def)

lemma addPoints_None: "isl (addPoints None pts m) \<longleftrightarrow> pts \<noteq> []"
  by (cases pts) (auto split: parsed.splits option.splits)

lemma addPoints_fails_iff:
  "isl (addPoints (Some t) pts m) \<longleftrightarrow>
     (\<exists>p \<in> set pts. price_amount p = None \<or>
        (\<forall>n. position p = Parsed n \<longrightarrow> setHours t (hourOf n) = None))"
proof (induction pts arbitrary: m)
  case Nil
  show ?case by simp
next
  case (Cons p ps)
  show ?case
  proof (cases "position p")
    case Missing
    then show ?thesis by simp
  next
    case Unparsable
    then show ?thesis by (simp split: option.splits)
  next
    case (Parsed n)
    show ?thesis
    proof (cases "price_amount p")
      case None
      with Parsed show ?thesis by simp
    next
      case (Some amount)
      with Parsed Cons.IH show ?thesis
        by (cases "hourOf n") (auto simp: setHours_not_finite split: option.splits)
    qed
  qed
qed

lemma addPoints_dom:
  "addPoints st pts m = Inr m' \<Longrightarrow>
   dom m' = dom m \<union>
     {\<lfloor>hour\<rfloor> |hour. \<exists>p \<in> set pts. \<exists>n. position p = Parsed n \<and> hourOf n = Finite hour}"
proof (induction pts arbitrary: m)
  case Nil
  then show ?case by simp
next
  case (Cons p ps)
  from Cons.prems obtain n hour m1 where p: "position p = Parsed n"
    and h: "hourOf n = Finite hour"
    and rec: "addPoints st ps m1 = Inr m'" and m1: "dom m1 = insert \<lfloor>hour\<rfloor> (dom m)"
    by (auto split: parsed.splits option.splits double.splits)
  from Cons.IH[OF rec] show ?case
    using p h m1 by auto
qed

lemma periodRates_fails_iff:
  "isl (periodRates pd) \<longleftrightarrow>
     Point pd = [] \<or>
     (\<forall>t. period_start pd = Parsed t \<longrightarrow> \<not> validTime t) \<or>
     (\<exists>p \<in> set (Point pd). price_amount p = None \<or>
        (\<forall>n t. position p = Parsed n \<and> period_start pd = Parsed t \<longrightarrow>
           setHours t (hourOf n) = None))"
proof (cases "period_start pd")
  case Missing
  then show ?thesis by (simp add: periodRates_def)
next
  case Unparsable
  then show ?thesis by (simp add: periodRates_def addPoints_None)
next
  case (Parsed t)
  then show ?thesis by (auto simp: periodRates_def addPoints_None addPoints_fails_iff)
qed

lemma periodRates_dom:
  "periodRates pd = Inr rates \<Longrightarrow>
   dom rates =
     {\<lfloor>hour\<rfloor> |hour. \<exists>p \<in> set (Point pd). \<exists>n. position p = Parsed n \<and> hourOf n = Finite hour}"
proof -
  assume "periodRates pd = Inr rates"
  then obtain st where "addPoints st (Point pd) Map.empty = Inr rates"
    by (auto simp: periodRates_def split: if_splits parsed.splits)
  from addPoints_dom[OF this] show ?thesis by simp
qed

text \<open>The two example periods: their hours and the times of their points.\<close>

lemma gapped_times:
  "hourOf 1 = Finite 0" "hourOf 3 = Finite 2"
  "setHours 1704150000000 (Finite 0) = Some 1704150000000"
  "setHours 1704150000000 (Finite 2) = Some 1704157200000"
proof -
  show h1: "hourOf 1 = Finite 0" and h3: "hourOf 3 = Finite 2"
    using hourOf_exact[of 1] hourOf_exact[of 3] by simp_all
  show "setHours 1704150000000 (Finite 0) = Some 1704150000000"
    using setHours_exact[of 1704150000000 1] unfolding h1 by (simp add: validTime_def)
  show "setHours 1704150000000 (Finite 2) = Some 1704157200000"
    using setHours_exact[of 1704150000000 3] unfolding h3 by (simp add: validTime_def)
qed

lemma far_time:
  "hourOf 3000000000 = Finite 2999999999"
  "setHours 1704150000000 (Finite 2999999999) = None"
proof -
  show "hourOf 3000000000 = Finite 2999999999"
    using hourOf_exact[of 3000000000] by simp
  show "setHours 1704150000000 (Finite 2999999999) = None"
    by (simp add: setHours_def roundDouble_eval)
qed

text \<open>
  Claim C7, as stated, fails: a feed with the positions 1 and 3, which are not the range
  1..2, has points and a valid period start, and the function does not fail on it but
  stores the new prices.
\<close>

theorem gapped_positions_counterexample:
  "\<not> spec_positions_contiguous (Point gappedPeriod) \<and>
   Point gappedPeriod \<noteq> [] \<and> period_start gappedPeriod = Parsed 1704150000000 \<and>
   \<not> isl (hourlyRatesOf gappedFeed) \<and>
   fetchEnergyPrices None gappedFeed \<noteq> None"
  by (simp add: spec_positions_contiguous_def gappedFeed_def gappedPeriod_def hourlyRatesOf_def
      periodRates_def validTime_def fetchEnergyPrices_def gapped_times
      del: divideDouble.simps)

text \<open>
  Claim C7, amended. The function fails, and then leaves the stored price document as it
  was, exactly in these cases: the response has no market document, no time series, or no
  period in the relevant time series; the period has no points; the period start is
  missing, is not a date, or is out of the range of dates; or some point has no price, or
  no position that is a number, or a position for which \<^verbatim>\<open>setHours\<close> gives an invalid
  date. In every other case it succeeds and the new prices replace the stored document,
  with one entry for each distinct hour of a point. For a position up to \<open>2^31\<close> in
  magnitude the hour is position - 1, and \<^verbatim>\<open>setHours\<close> gives an invalid date exactly when
  the period start plus position - 1 hours is out of the range of dates. Positions that are
  numbers are not checked for being the range 1..N.
\<close>

theorem price_feed_fails_iff:
  "isl (hourlyRatesOf NoPublication) \<and>
   isl (hourlyRatesOf (Publication [])) \<and>
   (Period s = None \<longrightarrow> isl (hourlyRatesOf (Publication (ts @ [s])))) \<and>
   (Period s = Some pd \<longrightarrow>
      (isl (hourlyRatesOf (Publication (ts @ [s]))) \<longleftrightarrow>
         Point pd = [] \<or>
         (\<forall>t. period_start pd = Parsed t \<longrightarrow> \<not> validTime t) \<or>
         (\<exists>p \<in> set (Point pd). price_amount p = None \<or>
            (\<forall>n t. position p = Parsed n \<and> period_start pd = Parsed t \<longrightarrow>
               setHours t (hourOf n) = None)))) \<and>
   (isl (hourlyRatesOf parsedData) \<longrightarrow> fetchEnergyPrices cur parsedData = cur) \<and>
   (Period s = Some pd \<and> \<not> isl (hourlyRatesOf (Publication (ts @ [s]))) \<longrightarrow>
      (\<exists>rates. fetchEnergyPrices cur (Publication (ts @ [s])) = Some rates \<and>
         dom rates =
           {\<lfloor>hour\<rfloor> |hour. \<exists>p \<in> set (Point pd). \<exists>n.
              position p = Parsed n \<and> hourOf n = Finite hour})) \<and>
   (validTime t \<and> \<bar>n\<bar> \<le> 2 ^ 31 \<longrightarrow>
      hourOf n = Finite (of_int (n - 1)) \<and>
      setHours t (hourOf n) =
        (if validTime (t + (n - 1) * 3600000) then Some (t + (n - 1) * 3600000) else None))"
proof -
  have a: "isl (hourlyRatesOf NoPublication)" "isl (hourlyRatesOf (Publication []))"
    by (simp_all add: hourlyRatesOf_def)
  have b: "Period s = None \<longrightarrow> isl (hourlyRatesOf (Publication (ts @ [s])))"
    by (simp add: hourlyRatesOf_def)
  have r: "hourlyRatesOf (Publication (ts @ [s])) = periodRates pd" if "Period s = Some pd"
    using that by (simp add: hourlyRatesOf_def)
  have c: "Period s = Some pd \<longrightarrow>
      (isl (hourlyRatesOf (Publication (ts @ [s]))) \<longleftrightarrow>
         Point pd = [] \<or>
         (\<forall>t. period_start pd = Parsed t \<longrightarrow> \<not> validTime t) \<or>
         (\<exists>p \<in> set (Point pd). price_amount p = None \<or>
            (\<forall>n t. position p = Parsed n \<and> period_start pd = Parsed t \<longrightarrow>
               setHours t (hourOf n) = None)))"
    using periodRates_fails_iff[of pd] by (simp add: r)
  have d: "isl (hourlyRatesOf parsedData) \<longrightarrow> fetchEnergyPrices cur parsedData = cur"
    by (cases "hourlyRatesOf parsedData") (simp_all add: fetchEnergyPrices_def)
  have e: "Period s = Some pd \<and> \<not> isl (hourlyRatesOf (Publication (ts @ [s]))) \<longrightarrow>
      (\<exists>rates. fetchEnergyPrices cur (Publication (ts @ [s])) = Some rates \<and>
         dom rates =
           {\<lfloor>hour\<rfloor> |hour. \<exists>p \<in> set (Point pd). \<exists>n.
              position p = Parsed n \<and> hourOf n = Finite hour})"
  proof (intro impI, elim conjE)
    assume pd: "Period s = Some pd" and ok: "\<not> isl (hourlyRatesOf (Publication (ts @ [s])))"
    then obtain rates where rates: "periodRates pd = Inr rates"
      by (cases "periodRates pd") (simp_all add: r)
    then have "fetchEnergyPrices cur (Publication (ts @ [s])) = Some rates"
      by (simp add: fetchEnergyPrices_def r[OF pd])
    with periodRates_dom[OF rates] show "\<exists>rates.
        fetchEnergyPrices cur (Publication (ts @ [s])) = Some rates \<and>
        dom rates =
          {\<lfloor>hour\<rfloor> |hour. \<exists>p \<in> set (Point pd). \<exists>n.
             position p = Parsed n \<and> hourOf n = Finite hour}"
      by blast
  qed
  have f: "validTime t \<and> \<bar>n\<bar> \<le> 2 ^ 31 \<longrightarrow>
      hourOf n = Finite (of_int (n - 1)) \<and>
      setHours t (hourOf n) =
        (if validTime (t + (n - 1) * 3600000) then Some (t + (n - 1) * 3600000) else None)"
  proof (intro impI, elim conjE)
    assume v: "validTime t" and n: "\<bar>n\<bar> \<le> 2 ^ 31"
    from n have "\<bar>n\<bar> \<le> 2 ^ 52" by simp
    from hourOf_exact[OF this] setHours_exact[OF v n]
    show "hourOf n = Finite (of_int (n - 1)) \<and>
      setHours t (hourOf n) =
        (if validTime (t + (n - 1) * 3600000) then Some (t + (n - 1) * 3600000) else None)"
      by simp
  qed
  from a b c d e f show ?thesis by blast
qed

theorem price_feed_fails_iff_witness:
  "\<not> isl (hourlyRatesOf gappedFeed) \<and>
   map_option time' (projr (hourlyRatesOf gappedFeed) 0) = Some 1704150000000 \<and>
   projr (hourlyRatesOf gappedFeed) 1 = None \<and>
   map_option time' (projr (hourlyRatesOf gappedFeed) 2) = Some 1704157200000 \<and>
   isl (hourlyRatesOf farFeed) \<and>
   fetchEnergyPrices (Some storedRates) farFeed = Some storedRates \<and>
   isl (hourlyRatesOf (Publication [\<lparr>Period = Some \<lparr>period_start = Parsed 0, Point = []\<rparr>\<rparr>])) \<and>
   isl (hourlyRatesOf (Publication [\<lparr>Period = Some
          \<lparr>period_start = Unparsable,
           Point = [\<lparr>position = Parsed 1, price_amount = Some (Finite 50)\<rparr>]\<rparr>\<rparr>])) \<and>
   isl (hourlyRatesOf (Publication [\<lparr>Period = Some
          \<lparr>period_start = Parsed 0,
           Point = [\<lparr>position = Unparsable, price_amount = Some (Finite 50)\<rparr>]\<rparr>\<rparr>])) \<and>
   isl (hourlyRatesOf (Publication [\<lparr>Period = Some
          \<lparr>period_start = Parsed 0,
           Point = [\<lparr>position = Parsed 1, price_amount = None\<rparr>]\<rparr>\<rparr>]))"
proof -
  note inst = price_feed_fails_iff[where ts = "[]" and cur = "Some storedRates"
      and t = 0 and n = 0]
  have g: "\<not> isl (hourlyRatesOf gappedFeed)"
    using inst[of "\<lparr>Period = Some gappedPeriod\<rparr>" gappedPeriod]
    by (simp add: gappedFeed_def gappedPeriod_def validTime_def gapped_times)
  have r: "hourlyRatesOf gappedFeed =
      Inr ((Map.empty(0 \<mapsto> \<lparr>price' = divideDouble (Finite 50) 1000, time' = 1704150000000\<rparr>))
             (2 \<mapsto> \<lparr>price' = divideDouble (Finite 70) 1000, time' = 1704157200000\<rparr>))"
    by (simp add: hourlyRatesOf_def periodRates_def gappedFeed_def gappedPeriod_def
        validTime_def gapped_times del: divideDouble.simps)
  have f: "isl (hourlyRatesOf farFeed)"
    using inst[of "\<lparr>Period = Some farPeriod\<rparr>" farPeriod]
    by (simp add: farFeed_def farPeriod_def validTime_def far_time)
  have f': "fetchEnergyPrices (Some storedRates) farFeed = Some storedRates"
    using inst[of _ _ farFeed] f by simp
  have e2: "isl (hourlyRatesOf (Publication
      [\<lparr>Period = Some \<lparr>period_start = Parsed 0, Point = []\<rparr>\<rparr>]))"
    using inst[of "\<lparr>Period = Some \<lparr>period_start = Parsed 0, Point = []\<rparr>\<rparr>"
        "\<lparr>period_start = Parsed 0, Point = []\<rparr>"] by simp
  have e3: "isl (hourlyRatesOf (Publication [\<lparr>Period = Some
          \<lparr>period_start = Unparsable,
           Point = [\<lparr>position = Parsed 1, price_amount = Some (Finite 50)\<rparr>]\<rparr>\<rparr>]))"
    using inst[of "\<lparr>Period = Some \<lparr>period_start = Unparsable,
           Point = [\<lparr>position = Parsed 1, price_amount = Some (Finite 50)\<rparr>]\<rparr>\<rparr>"
        "\<lparr>period_start = Unparsable,
           Point = [\<lparr>position = Parsed 1, price_amount = Some (Finite 50)\<rparr>]\<rparr>"] by simp
  have e4: "isl (hourlyRatesOf (Publication [\<lparr>Period = Some
          \<lparr>period_start = Parsed 0,
           Point = [\<lparr>position = Unparsable, price_amount = Some (Finite 50)\<rparr>]\<rparr>\<rparr>]))"
    using inst[of "\<lparr>Period = Some \<lparr>period_start = Parsed 0,
           Point = [\<lparr>position = Unparsable, price_amount = Some (Finite 50)\<rparr>]\<rparr>\<rparr>"
        "\<lparr>period_start = Parsed 0,
           Point = [\<lparr>position = Unparsable, price_amount = Some (Finite 50)\<rparr>]\<rparr>"] by simp
  have e5: "isl (hourlyRatesOf (Publication [\<lparr>Period = Some
          \<lparr>period_start = Parsed 0,
           Point = [\<lparr>position = Parsed 1, price_amount = None\<rparr>]\<rparr>\<rparr>]))"
    using inst[of "\<lparr>Period = Some \<lparr>period_start = Parsed 0,
           Point = [\<lparr>position = Parsed 1, price_amount = None\<rparr>]\<rparr>\<rparr>"
        "\<lparr>period_start = Parsed 0,
           Point = [\<lparr>position = Parsed 1, price_amount = None\<rparr>]\<rparr>"] by simp
  from g f f' e2 e3 e4 e5 show ?thesis by (simp add: r)
qed

end
